theory Spec2Isabelle
  imports Main "HOL-Library.Multiset"
begin

section \<open>Python values used by the embedding\<close>

text \<open>
  Python's unbounded \<open>int\<close> is \<open>int\<close>; \<open>str\<close> is \<open>string\<close> (a list of 8-bit characters, so the
  embedding speaks about ASCII text); \<open>bytes\<close> is a list of characters as well.
  \<open>str_int\<close> is Python's \<open>str(i)\<close> for an integer, as used by the f-strings of the source.
\<close>

type_synonym bytes = "char list"

definition digit :: "nat \<Rightarrow> char" where
  "digit d =
     (if d = 0 then CHR ''0'' else if d = 1 then CHR ''1'' else if d = 2 then CHR ''2''
      else if d = 3 then CHR ''3'' else if d = 4 then CHR ''4'' else if d = 5 then CHR ''5''
      else if d = 6 then CHR ''6'' else if d = 7 then CHR ''7'' else if d = 8 then CHR ''8''
      else CHR ''9'')"

fun str_nat :: "nat \<Rightarrow> string" where
  "str_nat n = (if n < 10 then [digit n] else str_nat (n div 10) @ [digit (n mod 10)])"

declare str_nat.simps [simp del]

definition str_int :: "int \<Rightarrow> string" where
  "str_int i = (if i < 0 then CHR ''-'' # str_nat (nat (- i)) else str_nat (nat i))"

text \<open>A name between apostrophes, as Python's messages print type and attribute names.\<close>

definition quoted :: "string \<Rightarrow> string" where
  "quoted s = [CHR 0x27] @ s @ [CHR 0x27]"

section \<open>pydantic validation errors\<close>

text \<open>
  A pydantic \<open>ValidationError\<close> carries the model's name and one line per failed field:
  the location of the field (field names and list indices), the kind of the failure with
  its bound, and the input received. A list input is recorded by its length.
  A \<open>ValueError\<close> raised by a \<open>field_validator\<close> becomes a line of kind \<open>value_error\<close>
  holding the message of the exception.
\<close>

datatype loc_item = Field string | Index nat

datatype input_value = IntInput int | StrInput string | ListInput nat

datatype error_type =
    greater_than_equal int
  | less_than_equal int
  | string_too_short nat
  | too_short nat
  | value_error string

datatype line_error = LineError (loc: "loc_item list") (etype: error_type) (input: input_value)

datatype validation_error = ValidationError string "line_error list"

definition under :: "loc_item list \<Rightarrow> line_error list \<Rightarrow> line_error list" where
  "under pre es = map (\<lambda>e. LineError (pre @ loc e) (etype e) (input e)) es"

text \<open>The constraints \<open>ge\<close>, \<open>le\<close> of an integer field and \<open>min_length\<close> of a string field.\<close>

definition check_ge :: "string \<Rightarrow> int \<Rightarrow> int \<Rightarrow> line_error list" where
  "check_ge f b v = (if v < b then [LineError [Field f] (greater_than_equal b) (IntInput v)] else [])"

definition check_range :: "string \<Rightarrow> int \<Rightarrow> int \<Rightarrow> int \<Rightarrow> line_error list" where
  "check_range f lo hi v =
     (if v < lo then [LineError [Field f] (greater_than_equal lo) (IntInput v)]
      else if hi < v then [LineError [Field f] (less_than_equal hi) (IntInput v)]
      else [])"

definition check_str_min :: "string \<Rightarrow> nat \<Rightarrow> string \<Rightarrow> line_error list" where
  "check_str_min f n v =
     (if length v < n then [LineError [Field f] (string_too_short n) (StrInput v)] else [])"

text \<open>
  A list field: the items are validated first, each error located under the field and the
  item's index; only a list whose items are all valid is checked against \<open>min_length\<close>.
\<close>

definition item_errors :: "string \<Rightarrow> ('a \<Rightarrow> line_error list) \<Rightarrow> 'a list \<Rightarrow> line_error list" where
  "item_errors f errs xs =
     concat (map (\<lambda>(i, x). under [Field f, Index i] (errs x)) (enumerate 0 xs))"

definition check_list :: "string \<Rightarrow> nat \<Rightarrow> ('a \<Rightarrow> line_error list) \<Rightarrow> 'a list \<Rightarrow> line_error list" where
  "check_list f n errs xs =
     (let es = item_errors f errs xs
      in if es \<noteq> [] then es
         else if length xs < n then [LineError [Field f] (too_short n) (ListInput (length xs))]
         else [])"

section \<open>schemas/lesson\_plan.py: the request\<close>

datatype Difficulty = LOW | MEDIUM | HARD

datatype TeachingApproach = INQUIRY_BASED | DIRECT | PROJECT_BASED | MIXED

datatype AssessmentType = FORMATIVE | SUMMATIVE | DIAGNOSTIC

datatype ResourceType = VIDEO | ARTICLE | INTERACTIVE | DATASET | TOOL

type_synonym path = string

record LessonPlanRequest =
  topic :: string
  grade :: string
  lecture_duration :: int
  total_periods :: int
  difficulty :: Difficulty
  teaching_approach :: TeachingApproach
  prior_knowledge :: string
  lab_required :: bool
  programming_language :: "string option"
  resource_files :: "path list"
  cached_content_name :: "string option"
  additional_context :: "string option"

text \<open>\<open>validate_programming_language_for_labs\<close> returns its argument unchanged.\<close>

definition validate_programming_language_for_labs :: "string option \<Rightarrow> string option" where
  "validate_programming_language_for_labs v = v"

text \<open>
  Construction of a \<open>LessonPlanRequest\<close> from field values of the declared types: the
  fields are checked in declaration order and every failed field contributes a line.
\<close>

definition LessonPlanRequest_errors :: "LessonPlanRequest \<Rightarrow> line_error list" where
  "LessonPlanRequest_errors a =
     check_str_min ''topic'' 3 (topic a)
     @ check_range ''lecture_duration'' 30 180 (lecture_duration a)
     @ check_range ''total_periods'' 1 30 (total_periods a)"

definition LessonPlanRequest_new :: "LessonPlanRequest \<Rightarrow> validation_error + LessonPlanRequest" where
  "LessonPlanRequest_new a =
     (let es = LessonPlanRequest_errors a
      in if es = []
         then Inr (a\<lparr>programming_language :=
                      validate_programming_language_for_labs (programming_language a)\<rparr>)
         else Inl (ValidationError ''LessonPlanRequest'' es))"

section \<open>schemas/lesson\_plan.py: the parts of a lecture period\<close>

record TimelineSegment =
  start_minute :: int
  duration :: int
  activity :: string
  instructor_notes :: "string option"

definition end_minute :: "TimelineSegment \<Rightarrow> int" where
  "end_minute s = start_minute s + TimelineSegment.duration s"

definition TimelineSegment_errors :: "TimelineSegment \<Rightarrow> line_error list" where
  "TimelineSegment_errors s =
     check_ge ''start_minute'' 0 (start_minute s)
     @ check_ge ''duration'' 1 (TimelineSegment.duration s)"

record Activity =
  title :: string
  description :: string
  duration :: int
  materials_needed :: "string list"
  instructions :: "string list"
  learning_outcomes :: "string list"

definition Activity_errors :: "Activity \<Rightarrow> line_error list" where
  "Activity_errors a = check_ge ''duration'' 1 (Activity.duration a)"

record Assessment =
  type :: AssessmentType
  title :: string
  description :: string
  questions_or_tasks :: "string list"
  rubric :: "string option"
  estimated_time :: int

definition Assessment_errors :: "Assessment \<Rightarrow> line_error list" where
  "Assessment_errors a = check_ge ''estimated_time'' 1 (Assessment.estimated_time a)"

record Differentiation =
  support_strategies :: "string list"
  challenge_strategies :: "string list"
  accommodations :: "string list"

record Homework =
  title :: string
  description :: string
  tasks :: "string list"
  estimated_time :: int
  due_date_offset :: int
  resources_needed :: "string list"

definition Homework_errors :: "Homework \<Rightarrow> line_error list" where
  "Homework_errors h = check_ge ''estimated_time'' 5 (Homework.estimated_time h)"

section \<open>schemas/lesson\_plan.py: LecturePeriod and its timeline validator\<close>

datatype exn =
    ValueError string
  | IndexError string
  | TypeError string
  | AttributeError string
  | LibraryError string
  | ContextCacheError string
  | DatastoreUploadError string

fun str_exn :: "exn \<Rightarrow> string" where
  "str_exn (ValueError m) = m"
| "str_exn (IndexError m) = m"
| "str_exn (TypeError m) = m"
| "str_exn (AttributeError m) = m"
| "str_exn (LibraryError m) = m"
| "str_exn (ContextCacheError m) = m"
| "str_exn (DatastoreUploadError m) = m"

definition gap_message :: "int \<Rightarrow> int \<Rightarrow> string" where
  "gap_message current_end next_start =
     ''Timeline gap detected: segment ends at '' @ str_int current_end
     @ '' but next starts at '' @ str_int next_start"

text \<open>
  The loop \<open>for i in range(len(sorted_segments) - 1)\<close>: it compares each segment with its
  successor and raises at the first pair that does not meet.
\<close>

fun check_continuity :: "TimelineSegment list \<Rightarrow> exn + unit" where
  "check_continuity (a # b # rest) =
     (if end_minute a \<noteq> start_minute b
      then Inl (ValueError (gap_message (end_minute a) (start_minute b)))
      else check_continuity (b # rest))"
| "check_continuity _ = Inr ()"

text \<open>\<open>sorted(segments, key=lambda x: x.start_minute)\<close> is a stable sort, as \<open>sort_key\<close> is.\<close>

definition validate_timeline_continuity :: "TimelineSegment list \<Rightarrow> exn + TimelineSegment list" where
  "validate_timeline_continuity segments =
     (if segments = [] then Inl (ValueError ''Timeline cannot be empty'')
      else let sorted_segments = sort_key start_minute segments
           in case check_continuity sorted_segments of
                Inl e \<Rightarrow> Inl e
              | Inr _ \<Rightarrow> Inr sorted_segments)"

record LecturePeriod =
  period_number :: int
  title :: string
  learning_objectives :: "string list"
  materials :: "string list"
  detailed_timeline :: "TimelineSegment list"
  detailed_activities :: "Activity list"
  assessment :: Assessment
  differentiation :: Differentiation
  homework :: Homework

text \<open>
  The field \<open>detailed_timeline\<close>: the segments are validated as \<open>TimelineSegment\<close>s first; the
  field validator runs on a list of valid segments only, and the field takes the value the
  validator returns.
\<close>

definition timeline_field :: "TimelineSegment list \<Rightarrow> line_error list + TimelineSegment list" where
  "timeline_field segments =
     (let es = item_errors ''detailed_timeline'' TimelineSegment_errors segments
      in if es \<noteq> [] then Inl es
         else case validate_timeline_continuity segments of
                Inl e \<Rightarrow> Inl [LineError [Field ''detailed_timeline'']
                                (value_error (str_exn e)) (ListInput (length segments))]
              | Inr sorted_segments \<Rightarrow> Inr sorted_segments)"

definition LecturePeriod_errors :: "LecturePeriod \<Rightarrow> line_error list" where
  "LecturePeriod_errors a =
     check_ge ''period_number'' 1 (period_number a)
     @ check_list ''learning_objectives'' 2 (\<lambda>_. []) (learning_objectives a)
     @ (case timeline_field (detailed_timeline a) of Inl es \<Rightarrow> es | Inr _ \<Rightarrow> [])
     @ check_list ''detailed_activities'' 1 Activity_errors (detailed_activities a)
     @ under [Field ''assessment''] (Assessment_errors (assessment a))
     @ under [Field ''homework''] (Homework_errors (homework a))"

definition LecturePeriod_new :: "LecturePeriod \<Rightarrow> validation_error + LecturePeriod" where
  "LecturePeriod_new a =
     (let es = LecturePeriod_errors a
      in if es = []
         then (case timeline_field (detailed_timeline a) of
                 Inl _ \<Rightarrow> Inl (ValidationError ''LecturePeriod'' es)
               | Inr sorted_segments \<Rightarrow> Inr (a\<lparr>detailed_timeline := sorted_segments\<rparr>))
         else Inl (ValidationError ''LecturePeriod'' es))"

section \<open>schemas/lesson\_plan.py: CompleteLessonPlan and its count validator\<close>

text \<open>
  A \<open>ResourceLink\<close> is taken as an already validated value: the parsing of \<open>HttpUrl\<close> is
  pydantic's and is not modelled. \<open>generated_at\<close> is the clock reading of the default factory,
  passed in.
\<close>

record ResourceLink =
  title :: string
  url :: string
  type :: ResourceType
  description :: string
  recommended_for :: "int list"

record CompleteLessonPlan =
  generated_at :: int
  course_title :: string
  course_description :: string
  request :: LessonPlanRequest
  lectures :: "LecturePeriod list"
  resource_links :: "ResourceLink list"
  progression_map :: string
  prerequisites_summary :: string
  learning_outcomes_summary :: "string list"

text \<open>
  \<open>validate_lecture_count\<close>: its second argument is \<open>info.data.get("request")\<close>, which is
  the validated request, or \<open>None\<close> when the field \<open>request\<close> failed its own validation.
  A model instance is truthy, so \<open>if request and ...\<close> tests for \<open>None\<close> only.
\<close>

definition validate_lecture_count ::
  "LecturePeriod list \<Rightarrow> LessonPlanRequest option \<Rightarrow> exn + LecturePeriod list" where
  "validate_lecture_count lecs req =
     (case req of
        None \<Rightarrow> Inr lecs
      | Some r \<Rightarrow>
          if int (length lecs) \<noteq> total_periods r
          then Inl (ValueError (''Expected '' @ str_int (total_periods r)
                                @ '' lectures, got '' @ str_nat (length lecs)))
          else Inr lecs)"

text \<open>The items of \<open>lectures\<close>: the errors of the invalid ones, the values of the valid ones.\<close>

fun lectures_items :: "nat \<Rightarrow> LecturePeriod list \<Rightarrow> line_error list \<times> LecturePeriod list" where
  "lectures_items i [] = ([], [])"
| "lectures_items i (a # rest) =
     (case lectures_items (Suc i) rest of
        (es, vs) \<Rightarrow>
          (case LecturePeriod_new a of
             Inl (ValidationError _ es0) \<Rightarrow> (under [Field ''lectures'', Index i] es0 @ es, vs)
           | Inr v \<Rightarrow> (es, v # vs)))"

text \<open>
  The field \<open>lectures\<close> (\<open>min_length=1\<close>, then the field validator): the validator runs only
  on a list that passed the item and length checks.
\<close>

definition lectures_field ::
  "LecturePeriod list \<Rightarrow> LessonPlanRequest option \<Rightarrow> line_error list + LecturePeriod list" where
  "lectures_field lecs req =
     (case lectures_items 0 lecs of
        (es, vs) \<Rightarrow>
          if es \<noteq> [] then Inl es
          else if length vs < 1
          then Inl [LineError [Field ''lectures''] (too_short 1) (ListInput (length lecs))]
          else (case validate_lecture_count vs req of
                  Inl e \<Rightarrow> Inl [LineError [Field ''lectures''] (value_error (str_exn e))
                                  (ListInput (length lecs))]
                | Inr ls \<Rightarrow> Inr ls))"

definition request_field :: "LessonPlanRequest \<Rightarrow> line_error list \<times> LessonPlanRequest option" where
  "request_field a =
     (case LessonPlanRequest_new a of
        Inl (ValidationError _ es) \<Rightarrow> (under [Field ''request''] es, None)
      | Inr r \<Rightarrow> ([], Some r))"

definition CompleteLessonPlan_new :: "CompleteLessonPlan \<Rightarrow> validation_error + CompleteLessonPlan" where
  "CompleteLessonPlan_new a =
     (case request_field (request a) of
        (req_es, req) \<Rightarrow>
          (case (req, lectures_field (lectures a) req) of
             (Some r, Inr ls) \<Rightarrow> Inr (a\<lparr>request := r, lectures := ls\<rparr>)
           | (_, Inl es) \<Rightarrow> Inl (ValidationError ''CompleteLessonPlan'' (req_es @ es))
           | (None, Inr _) \<Rightarrow> Inl (ValidationError ''CompleteLessonPlan'' req_es)))"

section \<open>pathlib and str methods used by the tools\<close>

text \<open>
  A \<open>Path\<close> is its string \<open>str(path)\<close>, in the normal form pathlib keeps: no trailing
  slash, no repeated slash, no component \<open>.\<close>; the empty path is the string \<open>.\<close>.
  \<open>name\<close> is the final component, and it is empty for the empty path and for the root;
  \<open>suffix\<close> is the part of the name from its last dot, when that dot is neither the first
  nor the last character of the name; \<open>stem\<close> is the rest.
\<close>

definition Path_name :: "path \<Rightarrow> string" where
  "Path_name p =
     (if p = ''.'' then [] else rev (takeWhile (\<lambda>c. c \<noteq> CHR ''/'') (rev p)))"

definition after_last_dot :: "string \<Rightarrow> string" where
  "after_last_dot n = rev (takeWhile (\<lambda>c. c \<noteq> CHR ''.'') (rev n))"

definition has_suffix :: "string \<Rightarrow> bool" where
  "has_suffix n \<longleftrightarrow>
     CHR ''.'' \<in> set n \<and> after_last_dot n \<noteq> [] \<and> Suc (length (after_last_dot n)) < length n"

definition Path_suffix :: "path \<Rightarrow> string" where
  "Path_suffix p =
     (let n = Path_name p
      in if has_suffix n then CHR ''.'' # after_last_dot n else [])"

definition Path_stem :: "path \<Rightarrow> string" where
  "Path_stem p =
     (let n = Path_name p
      in if has_suffix n then take (length n - Suc (length (after_last_dot n))) n else n)"

definition lower_char :: "char \<Rightarrow> char" where
  "lower_char c =
     (case map_of (zip ''ABCDEFGHIJKLMNOPQRSTUVWXYZ'' ''abcdefghijklmnopqrstuvwxyz'') c of
        Some l \<Rightarrow> l
      | None \<Rightarrow> c)"

definition lower :: "string \<Rightarrow> string" where
  "lower s = map lower_char s"

text \<open>
  \<open>lower\<close> above is \<open>str.lower\<close> on ASCII text: it maps the letters A to Z and leaves every
  other character. Below, \<open>sep.join(xs)\<close> and the operator \<open>sub in s\<close> on strings.
\<close>

fun join :: "string \<Rightarrow> string list \<Rightarrow> string" where
  "join sep [] = []"
| "join sep [x] = x"
| "join sep (x # y # rest) = x @ sep @ join sep (y # rest)"

fun contains :: "string \<Rightarrow> string \<Rightarrow> bool" where
  "contains sub [] = (sub = [])"
| "contains sub (c # cs) = (take (length sub) (c # cs) = sub \<or> contains sub cs)"

section \<open>The collaborators: local files, blob store, managed-context service\<close>

text \<open>
  The tools talk to Google Cloud Storage, Vertex AI and Discovery Engine through client
  libraries. Each library call the tools make is a \<open>lib_call\<close>. The environment \<open>env\<close> is
  what the tools read and do not change: the local files, the digest function of
  \<open>hashlib.sha256\<close>, and for every library call the message of the exception it raises, if
  it raises one (a transport failure, a rejected argument). The \<open>world\<close> is what the calls
  change: the objects of the buckets, the live caches of the managed-context service, the
  trace of the library calls made so far, and the warnings logged.
\<close>

text \<open>A \<open>timedelta\<close> is its number of microseconds, of either sign.\<close>

type_synonym timedelta = int

datatype lib_call =
    StorageClient string
  | BlobExists string string
  | BlobUploadFromFilename string string path
  | VertexaiInit string string
  | CachedContentCreate string string "(string \<times> string) list" timedelta string
  | CachedContentGet string
  | CachedContentDelete string
  | DocumentServiceClient
  | CreateDocument string string string string

record env =
  local_files :: "path \<Rightarrow> bytes option"
  sha256_hexdigest :: "bytes \<Rightarrow> string"
  raises :: "lib_call \<Rightarrow> string option"

record cached_content =
  cc_name :: string
  cc_model_name :: string
  cc_system_instruction :: string
  cc_contents :: "(string \<times> string) list"
  cc_ttl :: timedelta
  cc_display_name :: string

record world =
  blobs :: "string \<times> string \<Rightarrow> bytes option"
  caches :: "cached_content list"
  issued :: nat
  calls :: "lib_call list"
  warnings :: "(string \<times> (string \<times> string) list) list"

record Settings =
  google_cloud_project :: string
  google_cloud_region :: string
  specialist_model :: string
  vertex_ai_search_datastore_id :: "string option"

text \<open>A library call is recorded in the trace; it raises when the environment says so.\<close>

definition lib :: "env \<Rightarrow> lib_call \<Rightarrow> world \<Rightarrow> (exn + unit) \<times> world" where
  "lib E c w =
     (case raises E c of
        Some m \<Rightarrow> (Inl (LibraryError m), w\<lparr>calls := calls w @ [c]\<rparr>)
      | None \<Rightarrow> (Inr (), w\<lparr>calls := calls w @ [c]\<rparr>))"

text \<open>\<open>except Exception as e: raise Err(f"prefix{e}") from e\<close>.\<close>

definition reraise :: "(string \<Rightarrow> exn) \<Rightarrow> string \<Rightarrow> (exn + 'a) \<times> world \<Rightarrow> (exn + 'a) \<times> world" where
  "reraise err prefix r =
     (case r of
        (Inl e, w) \<Rightarrow> (Inl (err (prefix @ str_exn e)), w)
      | (Inr x, w) \<Rightarrow> (Inr x, w))"

text \<open>\<open>blob.exists()\<close> and \<open>blob.upload_from_filename(path)\<close> on the blob of a bucket.\<close>

definition blob_exists :: "env \<Rightarrow> string \<Rightarrow> string \<Rightarrow> world \<Rightarrow> (exn + bool) \<times> world" where
  "blob_exists E bucket_name blob_name w =
     (case lib E (BlobExists bucket_name blob_name) w of
        (Inl e, w1) \<Rightarrow> (Inl e, w1)
      | (Inr _, w1) \<Rightarrow> (Inr (blobs w1 (bucket_name, blob_name) \<noteq> None), w1))"

definition blob_upload_from_filename ::
  "env \<Rightarrow> string \<Rightarrow> string \<Rightarrow> path \<Rightarrow> world \<Rightarrow> (exn + unit) \<times> world" where
  "blob_upload_from_filename E bucket_name blob_name p w =
     (case local_files E p of
        None \<Rightarrow> (Inl (LibraryError (''[Errno 2] No such file or directory: '' @ p)), w)
      | Some content \<Rightarrow>
          (case lib E (BlobUploadFromFilename bucket_name blob_name p) w of
             (Inl e, w1) \<Rightarrow> (Inl e, w1)
           | (Inr _, w1) \<Rightarrow>
               (Inr (), w1\<lparr>blobs := (blobs w1)((bucket_name, blob_name) \<mapsto> content)\<rparr>)))"

text \<open>
  Modelled from the spec: the managed-context collaborator of the external interfaces,
  \<open>create(model_id, instruction, content_refs, ttl, display_name) -> handle\<close>,
  \<open>get(handle_id) -> handle | not_found\<close> and \<open>delete(handle_id)\<close>. The library is not part of
  the repository. \<open>caching.CachedContent(cached_content_name=n)\<close> looks the handle up and
  raises when the service has no live cache of that name; \<open>cache.delete()\<close> removes it.
  The service names the caches it creates by a counter.
\<close>

definition CachedContent_create ::
  "env \<Rightarrow> string \<Rightarrow> string \<Rightarrow> (string \<times> string) list \<Rightarrow> timedelta \<Rightarrow> string
   \<Rightarrow> world \<Rightarrow> (exn + cached_content) \<times> world" where
  "CachedContent_create E model_name system_instruction contents ttl display_name w =
     (case lib E (CachedContentCreate model_name system_instruction contents ttl display_name) w of
        (Inl e, w1) \<Rightarrow> (Inl e, w1)
      | (Inr _, w1) \<Rightarrow>
          (let c = \<lparr>cc_name = ''cachedContents/'' @ str_nat (issued w1),
                    cc_model_name = model_name,
                    cc_system_instruction = system_instruction,
                    cc_contents = contents,
                    cc_ttl = ttl,
                    cc_display_name = display_name\<rparr>
           in (Inr c, w1\<lparr>caches := caches w1 @ [c], issued := Suc (issued w1)\<rparr>)))"

definition CachedContent_get :: "env \<Rightarrow> string \<Rightarrow> world \<Rightarrow> (exn + cached_content) \<times> world" where
  "CachedContent_get E n w =
     (case lib E (CachedContentGet n) w of
        (Inl e, w1) \<Rightarrow> (Inl e, w1)
      | (Inr _, w1) \<Rightarrow>
          (case find (\<lambda>c. cc_name c = n) (caches w1) of
             None \<Rightarrow> (Inl (LibraryError (''404 Not found: cached content '' @ n)), w1)
           | Some c \<Rightarrow> (Inr c, w1)))"

definition CachedContent_delete :: "env \<Rightarrow> cached_content \<Rightarrow> world \<Rightarrow> (exn + unit) \<times> world" where
  "CachedContent_delete E c w =
     (case lib E (CachedContentDelete (cc_name c)) w of
        (Inl e, w1) \<Rightarrow> (Inl e, w1)
      | (Inr _, w1) \<Rightarrow>
          (Inr (), w1\<lparr>caches := filter (\<lambda>d. cc_name d \<noteq> cc_name c) (caches w1)\<rparr>))"

section \<open>tools/context\_cache.py\<close>

definition SUPPORTED_EXTENSIONS :: "string list" where
  "SUPPORTED_EXTENSIONS = [''.pdf'', ''.pptx'', ''.docx'', ''.txt'', ''.md'']"

definition DEFAULT_CACHE_TTL :: timedelta where
  "DEFAULT_CACHE_TTL = 3600 * 1000000"

text \<open>
  \<open>_compute_file_hash\<close> (here without its leading underscore) feeds the file to the
  digest in blocks of 4096 bytes, read until the empty block.
\<close>

function file_blocks :: "bytes \<Rightarrow> bytes list" where
  "file_blocks bs = (if bs = [] then [] else take 4096 bs # file_blocks (drop 4096 bs))"
  by pat_completeness auto
termination
  by (relation "measure length") auto

declare file_blocks.simps [simp del]

definition compute_file_hash :: "env \<Rightarrow> path \<Rightarrow> exn + string" where
  "compute_file_hash E file_path =
     (case local_files E file_path of
        None \<Rightarrow> Inl (LibraryError (''[Errno 2] No such file or directory: '' @ file_path))
      | Some content \<Rightarrow> Inr (sha256_hexdigest E (concat (file_blocks content))))"

definition unsupported_message :: "string \<Rightarrow> string list \<Rightarrow> string" where
  "unsupported_message suffix supported =
     ''Unsupported file type: '' @ suffix @ ''. Supported: '' @ join '', '' supported"

text \<open>
  The body of the \<open>for\<close> loop of \<open>upload_files_to_gcs\<close>, with the list \<open>gcs_uris\<close> built so
  far. The listing after \<open>Supported:\<close> follows the order of the source text (Python leaves
  the iteration order of a set open).
\<close>

fun upload_loop ::
  "env \<Rightarrow> string \<Rightarrow> path list \<Rightarrow> string list \<Rightarrow> world \<Rightarrow> (exn + string list) \<times> world" where
  "upload_loop E bucket_name [] gcs_uris w = (Inr gcs_uris, w)"
| "upload_loop E bucket_name (file_path # rest) gcs_uris w =
     (if local_files E file_path = None
      then (Inl (ContextCacheError (''File not found: '' @ file_path)), w)
      else if lower (Path_suffix file_path) \<notin> set SUPPORTED_EXTENSIONS
      then (Inl (ContextCacheError
                   (unsupported_message (Path_suffix file_path) SUPPORTED_EXTENSIONS)), w)
      else
        (case compute_file_hash E file_path of
           Inl e \<Rightarrow> (Inl e, w)
         | Inr file_hash \<Rightarrow>
             (let blob_name = ''lesson-materials/'' @ file_hash @ ''/'' @ Path_name file_path
              in case blob_exists E bucket_name blob_name w of
                   (Inl e, w1) \<Rightarrow> (Inl e, w1)
                 | (Inr present, w1) \<Rightarrow>
                     (case (if \<not> present
                            then blob_upload_from_filename E bucket_name blob_name file_path w1
                            else (Inr (), w1)) of
                        (Inl e, w2) \<Rightarrow> (Inl e, w2)
                      | (Inr _, w2) \<Rightarrow>
                          upload_loop E bucket_name rest
                            (gcs_uris @ [''gs://'' @ bucket_name @ ''/'' @ blob_name]) w2))))"

definition upload_files_to_gcs ::
  "env \<Rightarrow> path list \<Rightarrow> Settings \<Rightarrow> string \<Rightarrow> world \<Rightarrow> (exn + string list) \<times> world" where
  "upload_files_to_gcs E files settings bucket_name w =
     reraise ContextCacheError ''GCS upload failed: ''
       (case lib E (StorageClient (google_cloud_project settings)) w of
          (Inl e, w1) \<Rightarrow> (Inl e, w1)
        | (Inr _, w1) \<Rightarrow> upload_loop E bucket_name files [] w1)"

definition default_bucket :: string where
  "default_bucket = ''teacher-assistant-uploads''"

definition default_instruction :: string where
  "default_instruction =
     ''You are analyzing course materials including lecture slides, ''
     @ ''textbooks, and curriculum documents. Use these documents to ''
     @ ''generate detailed, accurate lesson plans that align with the ''
     @ ''content and learning objectives presented in the materials.''"

text \<open>
  \<open>create_context_cache\<close>. The argument \<open>files\<close> is \<open>None\<close> when the caller passes Python's
  \<open>None\<close>; \<open>len(None)\<close> raises inside the \<open>try\<close>. \<open>system_instruction or default_instruction\<close>
  takes the default for \<open>None\<close> and for the empty string. The arguments of
  \<open>CachedContent.create\<close> are evaluated before the call, so \<open>files[0]\<close> on an empty list
  raises before the service is reached.
\<close>

definition create_context_cache ::
  "env \<Rightarrow> path list option \<Rightarrow> Settings \<Rightarrow> string option \<Rightarrow> timedelta \<Rightarrow> world
   \<Rightarrow> (exn + string) \<times> world" where
  "create_context_cache E files_arg settings system_instruction ttl w =
     reraise ContextCacheError ''Cache creation failed: ''
       (case files_arg of
          None \<Rightarrow> (Inl (TypeError (''object of type '' @ quoted ''NoneType'' @ '' has no len()'')), w)
        | Some files \<Rightarrow>
            (case upload_files_to_gcs E files settings default_bucket w of
               (Inl e, w1) \<Rightarrow> (Inl e, w1)
             | (Inr gcs_uris, w1) \<Rightarrow>
                 (case lib E (VertexaiInit (google_cloud_project settings)
                                (google_cloud_region settings)) w1 of
                    (Inl e, w2) \<Rightarrow> (Inl e, w2)
                  | (Inr _, w2) \<Rightarrow>
                      (let contents = map (\<lambda>uri. (uri, ''application/pdf'')) gcs_uris;
                           instruction_text =
                             (case system_instruction of
                                None \<Rightarrow> default_instruction
                              | Some s \<Rightarrow> if s = [] then default_instruction else s)
                       in case files of
                            [] \<Rightarrow> (Inl (IndexError ''list index out of range''), w2)
                          | f0 # _ \<Rightarrow>
                              (case CachedContent_create E (specialist_model settings)
                                      instruction_text contents ttl
                                      (''lesson-materials-'' @ Path_stem f0) w2 of
                                 (Inl e, w3) \<Rightarrow> (Inl e, w3)
                               | (Inr cache, w3) \<Rightarrow> (Inr (cc_name cache), w3))))))"

definition delete_cache :: "env \<Rightarrow> string \<Rightarrow> Settings \<Rightarrow> world \<Rightarrow> (exn + unit) \<times> world" where
  "delete_cache E cache_name settings w =
     reraise ContextCacheError ''Cache deletion failed: ''
       (case lib E (VertexaiInit (google_cloud_project settings)
                      (google_cloud_region settings)) w of
          (Inl e, w1) \<Rightarrow> (Inl e, w1)
        | (Inr _, w1) \<Rightarrow>
            (case CachedContent_get E cache_name w1 of
               (Inl e, w2) \<Rightarrow> (Inl e, w2)
             | (Inr cache, w2) \<Rightarrow> CachedContent_delete E cache w2))"

section \<open>tools/datastore\_upload.py\<close>

definition datastore_SUPPORTED_EXTENSIONS :: "string list" where
  "datastore_SUPPORTED_EXTENSIONS = [''.pdf'', ''.pptx'', ''.docx'', ''.txt'', ''.md'', ''.html'']"

definition get_mime_type :: "path \<Rightarrow> string" where
  "get_mime_type file_path =
     (case map_of
        [(''.pdf'', ''application/pdf''),
         (''.pptx'', ''application/vnd.openxmlformats-officedocument.presentationml.presentation''),
         (''.docx'', ''application/vnd.openxmlformats-officedocument.wordprocessingml.document''),
         (''.txt'', ''text/plain''),
         (''.md'', ''text/markdown''),
         (''.html'', ''text/html'')] (lower (Path_suffix file_path)) of
        Some m \<Rightarrow> m
      | None \<Rightarrow> ''application/octet-stream'')"

definition upload_file_to_gcs ::
  "env \<Rightarrow> path \<Rightarrow> Settings \<Rightarrow> string \<Rightarrow> world \<Rightarrow> (exn + string) \<times> world" where
  "upload_file_to_gcs E file_path settings bucket_name w =
     reraise DatastoreUploadError (''Failed to upload '' @ Path_name file_path @ '': '')
       (case lib E (StorageClient (google_cloud_project settings)) w of
          (Inl e, w1) \<Rightarrow> (Inl e, w1)
        | (Inr _, w1) \<Rightarrow>
            (let blob_name = ''curriculum/'' @ Path_name file_path
             in case blob_exists E bucket_name blob_name w1 of
                  (Inl e, w2) \<Rightarrow> (Inl e, w2)
                | (Inr present, w2) \<Rightarrow>
                    (case (if \<not> present
                           then blob_upload_from_filename E bucket_name blob_name file_path w2
                           else (Inr (), w2)) of
                       (Inl e, w3) \<Rightarrow> (Inl e, w3)
                     | (Inr _, w3) \<Rightarrow>
                         (Inr (''gs://'' @ bucket_name @ ''/'' @ blob_name), w3))))"

text \<open>
  A Python \<open>dict\<close> as the list of its items in insertion order; \<open>d[k] = v\<close> replaces the
  value of a key that is present and appends a new key.
\<close>

fun dict_set :: "('k \<times> 'v) list \<Rightarrow> 'k \<Rightarrow> 'v \<Rightarrow> ('k \<times> 'v) list" where
  "dict_set [] k v = [(k, v)]"
| "dict_set ((k', v') # kvs) k v =
     (if k' = k then (k, v) # kvs else (k', v') # dict_set kvs k v)"

definition warning :: "string \<Rightarrow> (string \<times> string) list \<Rightarrow> world \<Rightarrow> world" where
  "warning event kvs w = w\<lparr>warnings := warnings w @ [(event, kvs)]\<rparr>"

text \<open>
  The body of the \<open>for\<close> loop of \<open>upload_to_datastore\<close>, with the dictionary
  \<open>uploaded_docs\<close> built so far. A missing file and a file of an unsupported type are logged
  as a warning and skipped (\<open>continue\<close>). The name the service gives a created document is
  its parent followed by the document id.
\<close>

fun datastore_loop ::
  "env \<Rightarrow> Settings \<Rightarrow> string \<Rightarrow> path list \<Rightarrow> (string \<times> string) list \<Rightarrow> world
   \<Rightarrow> (exn + (string \<times> string) list) \<times> world" where
  "datastore_loop E settings parent [] uploaded_docs w = (Inr uploaded_docs, w)"
| "datastore_loop E settings parent (file_path # rest) uploaded_docs w =
     (if local_files E file_path = None
      then datastore_loop E settings parent rest uploaded_docs
             (warning ''File not found'' [(''file'', file_path)] w)
      else if lower (Path_suffix file_path) \<notin> set datastore_SUPPORTED_EXTENSIONS
      then datastore_loop E settings parent rest uploaded_docs
             (warning ''Unsupported file type''
                [(''file'', Path_name file_path), (''type'', Path_suffix file_path)] w)
      else
        (case upload_file_to_gcs E file_path settings default_bucket w of
           (Inl e, w1) \<Rightarrow> (Inl e, w1)
         | (Inr gcs_uri, w1) \<Rightarrow>
             (let doc_id = Path_stem file_path
              in case lib E (CreateDocument parent doc_id gcs_uri (get_mime_type file_path)) w1 of
                   (Inr _, w2) \<Rightarrow>
                     datastore_loop E settings parent rest
                       (dict_set uploaded_docs (Path_name file_path)
                          (parent @ ''/documents/'' @ doc_id)) w2
                 | (Inl e, w2) \<Rightarrow>
                     if contains ''already exists'' (lower (str_exn e))
                     then datastore_loop E settings parent rest
                            (dict_set uploaded_docs (Path_name file_path) doc_id) w2
                     else (Inl e, w2))))"

definition upload_to_datastore ::
  "env \<Rightarrow> path list \<Rightarrow> Settings \<Rightarrow> world \<Rightarrow> (exn + (string \<times> string) list) \<times> world" where
  "upload_to_datastore E files settings w =
     reraise DatastoreUploadError ''Upload failed: ''
       (case lib E DocumentServiceClient w of
          (Inl e, w1) \<Rightarrow> (Inl e, w1)
        | (Inr _, w1) \<Rightarrow>
            (case vertex_ai_search_datastore_id settings of
               None \<Rightarrow> (Inl (AttributeError (quoted ''NoneType'' @ '' object has no attribute ''
                                          @ quoted ''split'')), w1)
             | Some datastore_id \<Rightarrow>
                 datastore_loop E settings (datastore_id @ ''/branches/default_branch'')
                   files [] w1))"

section \<open>Example data and notions used to state the properties\<close>

text \<open>Concrete values on which the properties below are run.\<close>

definition seg :: "int \<Rightarrow> int \<Rightarrow> TimelineSegment" where
  "seg s d = \<lparr>start_minute = s, TimelineSegment.duration = d, activity = ''work'', instructor_notes = None\<rparr>"

definition example_lecture :: "int \<Rightarrow> TimelineSegment list \<Rightarrow> LecturePeriod" where
  "example_lecture n segs =
     \<lparr>period_number = n,
      LecturePeriod.title = ''Light reactions'',
      learning_objectives = [''Describe the light reactions'', ''Name the products''],
      materials = [''slides''],
      detailed_timeline = segs,
      detailed_activities =
        [\<lparr>Activity.title = ''Leaf lab'', Activity.description = ''Observe a leaf'',
          Activity.duration = 15,
          materials_needed = [], instructions = [''Look''], learning_outcomes = []\<rparr>],
      assessment =
        \<lparr>Assessment.type = FORMATIVE, Assessment.title = ''Exit ticket'',
         Assessment.description = ''Recall'',
         questions_or_tasks = [''What is ATP?''], rubric = None,
         Assessment.estimated_time = 5\<rparr>,
      differentiation =
        \<lparr>support_strategies = [''pairing''], challenge_strategies = [''extension''],
         accommodations = []\<rparr>,
      homework =
        \<lparr>Homework.title = ''Reading'', Homework.description = ''Read chapter 3'',
         tasks = [''read''], Homework.estimated_time = 20, due_date_offset = 7, resources_needed = []\<rparr>\<rparr>"

definition example_request :: "string \<Rightarrow> int \<Rightarrow> int \<Rightarrow> LessonPlanRequest" where
  "example_request t d k =
     \<lparr>topic = t, grade = ''9th Grade'', lecture_duration = d, total_periods = k,
      difficulty = MEDIUM, teaching_approach = MIXED,
      prior_knowledge = ''No prior knowledge assumed'', lab_required = False,
      programming_language = None, resource_files = [], cached_content_name = None,
      additional_context = None\<rparr>"

definition example_plan :: "LessonPlanRequest \<Rightarrow> LecturePeriod list \<Rightarrow> CompleteLessonPlan" where
  "example_plan r ls =
     \<lparr>generated_at = 0, course_title = ''Photosynthesis'', course_description = ''Three lectures'',
      request = r, lectures = ls, resource_links = [], progression_map = ''1 then 2'',
      prerequisites_summary = ''none'', learning_outcomes_summary = [''understand'']\<rparr>"

text \<open>
  Notions used to state the properties of staging: the blob name and the URI that
  \<open>upload_files_to_gcs\<close> composes for a local file, and the uploads found in a trace.
\<close>

definition blob_name_of :: "env \<Rightarrow> path \<Rightarrow> string" where
  "blob_name_of E p =
     (case local_files E p of
        None \<Rightarrow> []
      | Some content \<Rightarrow> ''lesson-materials/'' @ sha256_hexdigest E content @ ''/'' @ Path_name p)"

definition gcs_uri_of :: "env \<Rightarrow> string \<Rightarrow> path \<Rightarrow> string" where
  "gcs_uri_of E bucket_name p = ''gs://'' @ bucket_name @ ''/'' @ blob_name_of E p"

fun puts :: "lib_call list \<Rightarrow> (string \<times> string) list" where
  "puts [] = []"
| "puts (BlobUploadFromFilename b n p # cs) = (b, n) # puts cs"
| "puts (_ # cs) = puts cs"

definition example_settings :: Settings where
  "example_settings =
     \<lparr>google_cloud_project = ''edu-teacher-assistant-prod'',
      google_cloud_region = ''us-central1'',
      specialist_model = ''gemini-2.0-flash-exp'',
      vertex_ai_search_datastore_id = Some ''projects/p/locations/global/collections/c/dataStores/d''\<rparr>"

text \<open>
  The example environments take the identity on the bytes for the digest function: the
  properties proved for every environment do not depend on the choice.
\<close>

definition example_env :: "(path \<times> bytes) list \<Rightarrow> (lib_call \<Rightarrow> string option) \<Rightarrow> env" where
  "example_env fs r = \<lparr>local_files = map_of fs, sha256_hexdigest = (\<lambda>bs. bs), raises = r\<rparr>"

definition no_faults :: "lib_call \<Rightarrow> string option" where
  "no_faults c = None"

definition rejects_nonpositive_ttl :: "lib_call \<Rightarrow> string option" where
  "rejects_nonpositive_ttl c =
     (case c of
        CachedContentCreate _ _ _ ttl _ \<Rightarrow>
          if ttl \<le> 0 then Some ''400 ttl must be positive'' else None
      | _ \<Rightarrow> None)"

definition empty_world :: world where
  "empty_world = \<lparr>blobs = (\<lambda>_. None), caches = [], issued = 0, calls = [], warnings = []\<rparr>"

text \<open>
  The two library calls \<open>create_context_cache\<close> makes after staging: the initialisation of
  Vertex AI, and the creation of the cache from the staged URIs.
\<close>

definition create_call :: "Settings \<Rightarrow> string option \<Rightarrow> string list \<Rightarrow> timedelta \<Rightarrow> path \<Rightarrow> lib_call" where
  "create_call S system_instruction gcs_uris ttl f0 =
     CachedContentCreate (specialist_model S)
       (case system_instruction of
          None \<Rightarrow> default_instruction
        | Some s \<Rightarrow> if s = [] then default_instruction else s)
       (map (\<lambda>uri. (uri, ''application/pdf'')) gcs_uris)
       ttl
       (''lesson-materials-'' @ Path_stem f0)"

definition init_call :: "Settings \<Rightarrow> lib_call" where
  "init_call S = VertexaiInit (google_cloud_project S) (google_cloud_region S)"

text \<open>A world in which the managed-context service holds one live cache.\<close>

definition live_world :: world where
  "live_world =
     empty_world
       \<lparr>caches :=
          [\<lparr>cc_name = ''cachedContents/0'',
            cc_model_name = ''gemini-2.0-flash-exp'',
            cc_system_instruction = default_instruction,
            cc_contents =
              [(''gs://teacher-assistant-uploads/lesson-materials/AAAA/slides.pdf'',
                ''application/pdf'')],
            cc_ttl = DEFAULT_CACHE_TTL,
            cc_display_name = ''lesson-materials-slides''\<rparr>],
        issued := 1\<rparr>"

text \<open>An environment in which the storage client cannot be constructed.\<close>

definition denies_storage :: "lib_call \<Rightarrow> string option" where
  "denies_storage c = (case c of StorageClient _ \<Rightarrow> Some ''403 denied'' | _ \<Rightarrow> None)"

section \<open>Properties of the schemas\<close>

lemma str_nat_digit [simp]: "n < 10 \<Longrightarrow> str_nat n = [digit n]"
  by (simp add: str_nat.simps)

lemma check_continuity_ok:
  "check_continuity s = Inr () \<longleftrightarrow>
     (\<forall>i. Suc i < length s \<longrightarrow> end_minute (s ! i) = start_minute (s ! Suc i))"
proof (induction s rule: check_continuity.induct)
  case (1 a b rest)
  show ?case
  proof (cases "end_minute a = start_minute b")
    case True
    have "(\<forall>i. Suc i < length (a # b # rest) \<longrightarrow>
             end_minute ((a # b # rest) ! i) = start_minute ((a # b # rest) ! Suc i))
          \<longleftrightarrow> (\<forall>i. Suc i < length (b # rest) \<longrightarrow>
             end_minute ((b # rest) ! i) = start_minute ((b # rest) ! Suc i))"
      (is "?L \<longleftrightarrow> ?R")
    proof
      assume l: ?L
      show ?R
      proof (intro allI impI)
        fix i assume "Suc i < length (b # rest)"
        then have "Suc (Suc i) < length (a # b # rest)" by simp
        with l have "end_minute ((a # b # rest) ! Suc i) = start_minute ((a # b # rest) ! Suc (Suc i))"
          by blast
        then show "end_minute ((b # rest) ! i) = start_minute ((b # rest) ! Suc i)" by simp
      qed
    next
      assume r: ?R
      show ?L
      proof (intro allI impI)
        fix i assume i: "Suc i < length (a # b # rest)"
        show "end_minute ((a # b # rest) ! i) = start_minute ((a # b # rest) ! Suc i)"
        proof (cases i)
          case 0
          with True show ?thesis by simp
        next
          case (Suc j)
          with i have "Suc j < length (b # rest)" by simp
          with r have "end_minute ((b # rest) ! j) = start_minute ((b # rest) ! Suc j)" by blast
          with Suc show ?thesis by simp
        qed
      qed
    qed
    with True 1 show ?thesis by simp
  next
    case False
    have "\<not> (\<forall>i. Suc i < length (a # b # rest) \<longrightarrow>
             end_minute ((a # b # rest) ! i) = start_minute ((a # b # rest) ! Suc i))"
    proof
      assume "\<forall>i. Suc i < length (a # b # rest) \<longrightarrow>
             end_minute ((a # b # rest) ! i) = start_minute ((a # b # rest) ! Suc i)"
      then have "end_minute ((a # b # rest) ! 0) = start_minute ((a # b # rest) ! Suc 0)"
        by (metis length_Cons Suc_less_eq zero_less_Suc)
      with False show False by simp
    qed
    with False show ?thesis by simp
  qed
qed simp_all

lemma check_continuity_gap:
  "check_continuity s = Inl e \<Longrightarrow>
     \<exists>i. Suc i < length s
        \<and> (\<forall>j<i. end_minute (s ! j) = start_minute (s ! Suc j))
        \<and> end_minute (s ! i) \<noteq> start_minute (s ! Suc i)
        \<and> e = ValueError (gap_message (end_minute (s ! i)) (start_minute (s ! Suc i)))"
proof (induction s rule: check_continuity.induct)
  case (1 a b rest)
  show ?case
  proof (cases "end_minute a = start_minute b")
    case False
    with 1(2) have "e = ValueError (gap_message (end_minute a) (start_minute b))" by simp
    with False have "Suc 0 < length (a # b # rest)
        \<and> (\<forall>j<0. end_minute ((a # b # rest) ! j) = start_minute ((a # b # rest) ! Suc j))
        \<and> end_minute ((a # b # rest) ! 0) \<noteq> start_minute ((a # b # rest) ! Suc 0)
        \<and> e = ValueError (gap_message (end_minute ((a # b # rest) ! 0)) (start_minute ((a # b # rest) ! Suc 0)))"
      by simp
    then show ?thesis by blast
  next
    case True
    with 1(2) have "check_continuity (b # rest) = Inl e" by simp
    from 1(1)[OF _ this] True obtain i where i: "Suc i < length (b # rest)"
      "\<forall>j<i. end_minute ((b # rest) ! j) = start_minute ((b # rest) ! Suc j)"
      "end_minute ((b # rest) ! i) \<noteq> start_minute ((b # rest) ! Suc i)"
      "e = ValueError (gap_message (end_minute ((b # rest) ! i)) (start_minute ((b # rest) ! Suc i)))"
      by auto
    have "\<forall>j<Suc i. end_minute ((a # b # rest) ! j) = start_minute ((a # b # rest) ! Suc j)"
    proof (intro allI impI)
      fix j assume "j < Suc i"
      show "end_minute ((a # b # rest) ! j) = start_minute ((a # b # rest) ! Suc j)"
      proof (cases j)
        case 0 with True show ?thesis by simp
      next
        case (Suc k)
        with \<open>j < Suc i\<close> have "k < i" by simp
        with i(2) Suc show ?thesis by simp
      qed
    qed
    with i have "Suc (Suc i) < length (a # b # rest)
        \<and> (\<forall>j<Suc i. end_minute ((a # b # rest) ! j) = start_minute ((a # b # rest) ! Suc j))
        \<and> end_minute ((a # b # rest) ! Suc i) \<noteq> start_minute ((a # b # rest) ! Suc (Suc i))
        \<and> e = ValueError (gap_message (end_minute ((a # b # rest) ! Suc i)) (start_minute ((a # b # rest) ! Suc (Suc i))))"
      by simp
    then show ?thesis by blast
  qed
qed simp_all

lemma timeline_field_Inl_nonempty: "timeline_field segs = Inl es \<Longrightarrow> es \<noteq> []"
  by (auto simp: timeline_field_def Let_def split: if_splits sum.splits)

lemma timeline_field_Inr:
  "timeline_field segs = Inr r \<Longrightarrow> validate_timeline_continuity segs = Inr r"
  by (auto simp: timeline_field_def Let_def split: if_splits sum.splits)

lemma validate_timeline_Inr:
  "validate_timeline_continuity segs = Inr r \<longleftrightarrow>
     segs \<noteq> [] \<and> r = sort_key start_minute segs \<and> check_continuity (sort_key start_minute segs) = Inr ()"
  by (auto simp: validate_timeline_continuity_def Let_def split: sum.splits)

lemma validate_timeline_Inl:
  "validate_timeline_continuity segs = Inl e \<longleftrightarrow>
     (segs = [] \<and> e = ValueError ''Timeline cannot be empty'')
     \<or> (segs \<noteq> [] \<and> check_continuity (sort_key start_minute segs) = Inl e)"
  by (auto simp: validate_timeline_continuity_def Let_def split: sum.splits)

lemma LecturePeriod_new_Inr:
  "LecturePeriod_new a = Inr p \<Longrightarrow>
     \<exists>r. timeline_field (detailed_timeline a) = Inr r \<and> p = a\<lparr>detailed_timeline := r\<rparr>"
  by (auto simp: LecturePeriod_new_def Let_def split: if_splits sum.splits)

lemma LecturePeriod_new_fails:
  assumes "\<forall>r. validate_timeline_continuity (detailed_timeline a) \<noteq> Inr r"
  shows "\<exists>err. LecturePeriod_new a = Inl err"
proof (cases "LecturePeriod_new a")
  case (Inl err)
  then show ?thesis by blast
next
  case (Inr p)
  from LecturePeriod_new_Inr[OF this] obtain r where "timeline_field (detailed_timeline a) = Inr r"
    by blast
  from timeline_field_Inr[OF this] assms show ?thesis by blast
qed

lemma digit_in: "digit d \<in> set ''0123456789''"
  by (simp add: digit_def)

lemma below_ten:
  "(a::nat) < 10 \<Longrightarrow>
     a = 0 \<or> a = 1 \<or> a = 2 \<or> a = 3 \<or> a = 4 \<or> a = 5 \<or> a = 6 \<or> a = 7 \<or> a = 8 \<or> a = 9"
  by arith

lemma digit_inj:
  assumes "a < 10" and "b < 10" and "digit a = digit b"
  shows "a = b"
  using below_ten[OF assms(1)] below_ten[OF assms(2)] assms(3)
  by (elim disjE) (simp_all add: digit_def)

lemma str_nat_chars: "set (str_nat n) \<subseteq> set ''0123456789''"
proof (induction n rule: str_nat.induct)
  case (1 n)
  show ?case
  proof (cases "n < 10")
    case True
    then show ?thesis using digit_in[of n] by (subst str_nat.simps) simp
  next
    case False
    with 1 have "set (str_nat (n div 10)) \<subseteq> set ''0123456789''" by simp
    with False digit_in[of "n mod 10"] show ?thesis by (subst str_nat.simps) simp
  qed
qed

lemma str_nat_nonempty: "str_nat n \<noteq> []"
  by (subst str_nat.simps) simp

lemma str_nat_inj: "str_nat n = str_nat m \<Longrightarrow> n = m"
proof (induction n arbitrary: m rule: str_nat.induct)
  case (1 n)
  show ?case
  proof (cases "n < 10")
    case n: True
    show ?thesis
    proof (cases "m < 10")
      case True
      with n "1.prems" have "digit n = digit m" by (simp add: str_nat.simps)
      with n True show ?thesis by (rule digit_inj)
    next
      case False
      with n "1.prems" have "[digit n] = str_nat (m div 10) @ [digit (m mod 10)]"
        by (simp add: str_nat.simps[of n] str_nat.simps[of m])
      then have "str_nat (m div 10) = []" by simp
      with str_nat_nonempty show ?thesis by blast
    qed
  next
    case n: False
    show ?thesis
    proof (cases "m < 10")
      case True
      with n "1.prems" have "str_nat (n div 10) @ [digit (n mod 10)] = [digit m]"
        by (simp add: str_nat.simps[of n] str_nat.simps[of m])
      then have "str_nat (n div 10) = []" by simp
      with str_nat_nonempty show ?thesis by blast
    next
      case False
      with n "1.prems"
      have "str_nat (n div 10) @ [digit (n mod 10)] = str_nat (m div 10) @ [digit (m mod 10)]"
        by (simp add: str_nat.simps[of n] str_nat.simps[of m])
      then have a: "str_nat (n div 10) = str_nat (m div 10)"
        and b: "digit (n mod 10) = digit (m mod 10)" by simp_all
      from "1.IH"[OF n a] have d: "n div 10 = m div 10" .
      have "n mod 10 < 10" "m mod 10 < 10" by simp_all
      from digit_inj[OF this b] have "n mod 10 = m mod 10" .
      with d show ?thesis by (metis div_mult_mod_eq)
    qed
  qed
qed

lemma minus_not_digit: "CHR ''-'' \<notin> set ''0123456789''"
  by simp

lemma space_not_digit: "CHR '' '' \<notin> insert (CHR ''-'') (set ''0123456789'')"
  by simp

lemma str_int_chars: "set (str_int i) \<subseteq> insert (CHR ''-'') (set ''0123456789'')"
proof (cases "i < 0")
  case True
  then have "str_int i = CHR ''-'' # str_nat (nat (- i))" by (simp add: str_int_def)
  then have "set (str_int i) = insert (CHR ''-'') (set (str_nat (nat (- i))))"
    by (simp only: list.set)
  with str_nat_chars[of "nat (- i)"] show ?thesis by blast
next
  case False
  then have "str_int i = str_nat (nat i)" by (simp add: str_int_def)
  then have "set (str_int i) = set (str_nat (nat i))" by (simp only:)
  with str_nat_chars[of "nat i"] show ?thesis by blast
qed

lemma str_nat_no_minus: "str_nat n \<noteq> CHR ''-'' # xs"
proof
  assume "str_nat n = CHR ''-'' # xs"
  then have "CHR ''-'' \<in> set (str_nat n)" by (simp only: list.set insertI1)
  with str_nat_chars[of n] minus_not_digit show False by blast
qed

lemma str_int_inj: "str_int i = str_int j \<Longrightarrow> i = j"
proof -
  assume e: "str_int i = str_int j"
  show ?thesis
  proof (cases "i < 0")
    case i: True
    then have si: "str_int i = CHR ''-'' # str_nat (nat (- i))" by (simp add: str_int_def)
    show ?thesis
    proof (cases "j < 0")
      case True
      then have "str_int j = CHR ''-'' # str_nat (nat (- j))" by (simp add: str_int_def)
      with e si have "str_nat (nat (- i)) = str_nat (nat (- j))" by (simp only: list.inject)
      from str_nat_inj[OF this] have "nat (- i) = nat (- j)" .
      with i True show ?thesis by arith
    next
      case False
      then have "str_int j = str_nat (nat j)" by (simp add: str_int_def)
      with e si have "str_nat (nat j) = CHR ''-'' # str_nat (nat (- i))" by (simp only:)
      with str_nat_no_minus show ?thesis by blast
    qed
  next
    case i: False
    then have si: "str_int i = str_nat (nat i)" by (simp add: str_int_def)
    show ?thesis
    proof (cases "j < 0")
      case True
      then have "str_int j = CHR ''-'' # str_nat (nat (- j))" by (simp add: str_int_def)
      with e si have "str_nat (nat i) = CHR ''-'' # str_nat (nat (- j))" by (simp only:)
      with str_nat_no_minus show ?thesis by blast
    next
      case False
      then have "str_int j = str_nat (nat j)" by (simp add: str_int_def)
      with e si have "str_nat (nat i) = str_nat (nat j)" by (simp only:)
      from str_nat_inj[OF this] have "nat i = nat j" .
      with i False show ?thesis by arith
    qed
  qed
qed

lemma split_at_separator:
  "c \<notin> set x \<Longrightarrow> c \<notin> set x' \<Longrightarrow> x @ c # r = x' @ c # r' \<Longrightarrow> x = x' \<and> r = r'"
proof (induction x arbitrary: x')
  case Nil
  then show ?case by (cases x') auto
next
  case (Cons a x)
  then show ?case by (cases x') auto
qed

lemma gap_text_names_minutes:
  assumes "''Timeline gap detected: segment ends at '' @ str_int e1
             @ '' but next starts at '' @ str_int s1
           = ''Timeline gap detected: segment ends at '' @ str_int e2
             @ '' but next starts at '' @ str_int s2"
  shows "e1 = e2 \<and> s1 = s2"
proof -
  from assms have eq: "str_int e1 @ CHR '' '' # (''but next starts at '' @ str_int s1)
                 = str_int e2 @ CHR '' '' # (''but next starts at '' @ str_int s2)"
    by simp
  have n1: "CHR '' '' \<notin> set (str_int e1)"
    using str_int_chars[of e1] space_not_digit by blast
  have n2: "CHR '' '' \<notin> set (str_int e2)"
    using str_int_chars[of e2] space_not_digit by blast
  from split_at_separator[OF n1 n2 eq] have a: "str_int e1 = str_int e2"
    and b: "''but next starts at '' @ str_int s1 = ''but next starts at '' @ str_int s2"
    by blast+
  from b have "str_int s1 = str_int s2" by simp
  from str_int_inj[OF a] str_int_inj[OF this] show ?thesis by blast
qed

lemma check_ge_Nil: "check_ge f b v = [] \<longleftrightarrow> b \<le> v"
  by (simp add: check_ge_def)

lemma item_errors_Nil: "item_errors f errs xs = [] \<longleftrightarrow> (\<forall>x\<in>set xs. errs x = [])"
proof -
  have "item_errors f errs xs = [] \<longleftrightarrow> (\<forall>p\<in>set (enumerate 0 xs). errs (snd p) = [])"
    by (auto simp: item_errors_def under_def split: prod.splits)
  also have "\<dots> \<longleftrightarrow> (\<forall>x\<in>snd ` set (enumerate 0 xs). errs x = [])" by blast
  also have "snd ` set (enumerate 0 xs) = set xs"
    by (metis list.set_map map_snd_enumerate)
  finally show ?thesis .
qed

lemma check_list_Nil:
  "check_list f n errs xs = [] \<longleftrightarrow> (\<forall>x\<in>set xs. errs x = []) \<and> n \<le> length xs"
  by (auto simp: check_list_def Let_def item_errors_Nil)

lemma TimelineSegment_errors_Nil:
  "TimelineSegment_errors s = [] \<longleftrightarrow> 0 \<le> start_minute s \<and> 1 \<le> TimelineSegment.duration s"
  by (simp add: TimelineSegment_errors_def check_ge_Nil)

lemma timeline_field_cases:
  "timeline_field segs =
     (if \<not> (\<forall>s\<in>set segs. 0 \<le> start_minute s \<and> 1 \<le> TimelineSegment.duration s)
      then Inl (item_errors ''detailed_timeline'' TimelineSegment_errors segs)
      else case validate_timeline_continuity segs of
             Inl e \<Rightarrow> Inl [LineError [Field ''detailed_timeline'']
                             (value_error (str_exn e)) (ListInput (length segs))]
           | Inr r \<Rightarrow> Inr r)"
  by (simp add: timeline_field_def Let_def item_errors_Nil TimelineSegment_errors_Nil)

lemma LecturePeriod_new_Inr_iff:
  "(\<exists>p. LecturePeriod_new a = Inr p) \<longleftrightarrow>
     1 \<le> period_number a
     \<and> 2 \<le> length (learning_objectives a)
     \<and> (\<forall>s\<in>set (detailed_timeline a). 0 \<le> start_minute s \<and> 1 \<le> TimelineSegment.duration s)
     \<and> (\<exists>r. validate_timeline_continuity (detailed_timeline a) = Inr r)
     \<and> 1 \<le> length (detailed_activities a)
     \<and> (\<forall>x\<in>set (detailed_activities a). 1 \<le> Activity.duration x)
     \<and> 1 \<le> Assessment.estimated_time (assessment a)
     \<and> 5 \<le> Homework.estimated_time (homework a)"
proof -
  have t: "(case timeline_field (detailed_timeline a) of Inl es \<Rightarrow> es | Inr _ \<Rightarrow> []) = []
           \<longleftrightarrow> (\<exists>r. timeline_field (detailed_timeline a) = Inr r)"
    by (cases "timeline_field (detailed_timeline a)") (auto dest: timeline_field_Inl_nonempty)
  have f: "(\<exists>r. timeline_field (detailed_timeline a) = Inr r) \<longleftrightarrow>
       (\<forall>s\<in>set (detailed_timeline a). 0 \<le> start_minute s \<and> 1 \<le> TimelineSegment.duration s)
       \<and> (\<exists>r. validate_timeline_continuity (detailed_timeline a) = Inr r)"
    by (simp add: timeline_field_cases split: sum.splits) 
  have e: "LecturePeriod_errors a = [] \<longleftrightarrow>
     1 \<le> period_number a
     \<and> 2 \<le> length (learning_objectives a)
     \<and> (\<exists>r. timeline_field (detailed_timeline a) = Inr r)
     \<and> 1 \<le> length (detailed_activities a)
     \<and> (\<forall>x\<in>set (detailed_activities a). 1 \<le> Activity.duration x)
     \<and> 1 \<le> Assessment.estimated_time (assessment a)
     \<and> 5 \<le> Homework.estimated_time (homework a)"
    unfolding LecturePeriod_errors_def append_is_Nil_conv t
    by (auto simp: check_ge_Nil check_list_Nil Activity_errors_def Assessment_errors_def
        Homework_errors_def under_def)
  have n: "(\<exists>p. LecturePeriod_new a = Inr p) \<longleftrightarrow>
       LecturePeriod_errors a = [] \<and> (\<exists>r. timeline_field (detailed_timeline a) = Inr r)"
    by (cases "timeline_field (detailed_timeline a)")
      (auto simp: LecturePeriod_new_def Let_def)
  show ?thesis unfolding n e f by blast
qed

lemma LecturePeriod_new_gap_error:
  assumes v: "\<forall>s\<in>set (detailed_timeline a). 0 \<le> start_minute s \<and> 1 \<le> TimelineSegment.duration s"
    and g: "validate_timeline_continuity (detailed_timeline a) = Inl (ValueError m)"
  shows "\<exists>es. LecturePeriod_new a = Inl (ValidationError ''LecturePeriod'' es)
           \<and> LineError [Field ''detailed_timeline''] (value_error m)
                (ListInput (length (detailed_timeline a))) \<in> set es"
proof -
  from v g have t: "timeline_field (detailed_timeline a)
      = Inl [LineError [Field ''detailed_timeline''] (value_error m)
               (ListInput (length (detailed_timeline a)))]"
    by (simp add: timeline_field_cases)
  then have "LineError [Field ''detailed_timeline''] (value_error m)
               (ListInput (length (detailed_timeline a))) \<in> set (LecturePeriod_errors a)"
    by (simp add: LecturePeriod_errors_def)
  moreover from this have "LecturePeriod_errors a \<noteq> []" by auto
  then have "LecturePeriod_new a = Inl (ValidationError ''LecturePeriod'' (LecturePeriod_errors a))"
    by (simp add: LecturePeriod_new_def Let_def)
  ultimately show ?thesis by blast
qed

text \<open>
  Claim C2 (timeline tiling). The validator of \<open>detailed_timeline\<close> sorts the segments by
  \<open>start_minute\<close> and accepts exactly the non-empty lists in which, after sorting, every
  segment's \<open>start_minute + duration\<close> equals the \<open>start_minute\<close> of the next one. What it
  returns is the sorted list. The empty list is refused with its own message. A list with a
  gap or an overlap, of one minute or more, is refused at the first pair that does not meet,
  with the message \<open>Timeline gap detected: segment ends at E but next starts at S\<close>, where
  \<open>E\<close> and \<open>S\<close> are the decimal numerals of the minute on each side of that boundary; the
  message determines both minutes. A \<open>LecturePeriod\<close> is constructed exactly when the
  validator accepts its timeline and the other fields meet their bounds; when the validator
  refuses a timeline of valid segments, the construction fails with a validation error
  whose line for \<open>detailed_timeline\<close> carries the validator's message.
\<close>

theorem timeline_tiling:
  "((\<exists>r. validate_timeline_continuity segs = Inr r) \<longleftrightarrow>
      segs \<noteq> [] \<and>
      (\<forall>i. Suc i < length segs \<longrightarrow>
           start_minute (sort_key start_minute segs ! i)
             + TimelineSegment.duration (sort_key start_minute segs ! i)
           = start_minute (sort_key start_minute segs ! Suc i)))
   \<and> (\<forall>r. validate_timeline_continuity segs = Inr r \<longrightarrow> r = sort_key start_minute segs)
   \<and> (segs = [] \<longrightarrow> validate_timeline_continuity segs = Inl (ValueError ''Timeline cannot be empty''))
   \<and> (\<forall>e. segs \<noteq> [] \<and> validate_timeline_continuity segs = Inl e \<longrightarrow>
          (\<exists>i. Suc i < length segs
             \<and> (\<forall>j<i. start_minute (sort_key start_minute segs ! j)
                         + TimelineSegment.duration (sort_key start_minute segs ! j)
                       = start_minute (sort_key start_minute segs ! Suc j))
             \<and> start_minute (sort_key start_minute segs ! i)
                   + TimelineSegment.duration (sort_key start_minute segs ! i)
                 \<noteq> start_minute (sort_key start_minute segs ! Suc i)
             \<and> e = ValueError
                     (''Timeline gap detected: segment ends at ''
                      @ str_int (start_minute (sort_key start_minute segs ! i)
                                 + TimelineSegment.duration (sort_key start_minute segs ! i))
                      @ '' but next starts at ''
                      @ str_int (start_minute (sort_key start_minute segs ! Suc i)))))
   \<and> (\<forall>e1 s1 e2 s2.
         ''Timeline gap detected: segment ends at '' @ str_int e1
           @ '' but next starts at '' @ str_int s1
         = ''Timeline gap detected: segment ends at '' @ str_int e2
           @ '' but next starts at '' @ str_int s2
         \<longrightarrow> e1 = e2 \<and> s1 = s2)
   \<and> ((\<exists>p. LecturePeriod_new a = Inr p) \<longleftrightarrow>
         1 \<le> period_number a
         \<and> 2 \<le> length (learning_objectives a)
         \<and> (\<forall>s\<in>set (detailed_timeline a).
               0 \<le> start_minute s \<and> 1 \<le> TimelineSegment.duration s)
         \<and> (\<exists>r. validate_timeline_continuity (detailed_timeline a) = Inr r)
         \<and> 1 \<le> length (detailed_activities a)
         \<and> (\<forall>x\<in>set (detailed_activities a). 1 \<le> Activity.duration x)
         \<and> 1 \<le> Assessment.estimated_time (assessment a)
         \<and> 5 \<le> Homework.estimated_time (homework a))
   \<and> (\<forall>m. (\<forall>s\<in>set (detailed_timeline a).
               0 \<le> start_minute s \<and> 1 \<le> TimelineSegment.duration s)
            \<and> validate_timeline_continuity (detailed_timeline a) = Inl (ValueError m) \<longrightarrow>
          (\<exists>es. LecturePeriod_new a = Inl (ValidationError ''LecturePeriod'' es)
             \<and> LineError [Field ''detailed_timeline''] (value_error m)
                  (ListInput (length (detailed_timeline a))) \<in> set es))"
proof (intro conjI)
  show "(\<exists>r. validate_timeline_continuity segs = Inr r) \<longleftrightarrow>
      segs \<noteq> [] \<and>
      (\<forall>i. Suc i < length segs \<longrightarrow>
           start_minute (sort_key start_minute segs ! i)
             + TimelineSegment.duration (sort_key start_minute segs ! i)
           = start_minute (sort_key start_minute segs ! Suc i))"
    using check_continuity_ok[of "sort_key start_minute segs"]
    by (simp add: validate_timeline_Inr end_minute_def)
  show "\<forall>r. validate_timeline_continuity segs = Inr r \<longrightarrow> r = sort_key start_minute segs"
    by (simp add: validate_timeline_Inr)
  show "segs = [] \<longrightarrow> validate_timeline_continuity segs = Inl (ValueError ''Timeline cannot be empty'')"
    by (simp add: validate_timeline_Inl)
  show "\<forall>e. segs \<noteq> [] \<and> validate_timeline_continuity segs = Inl e \<longrightarrow>
          (\<exists>i. Suc i < length segs
             \<and> (\<forall>j<i. start_minute (sort_key start_minute segs ! j)
                         + TimelineSegment.duration (sort_key start_minute segs ! j)
                       = start_minute (sort_key start_minute segs ! Suc j))
             \<and> start_minute (sort_key start_minute segs ! i)
                   + TimelineSegment.duration (sort_key start_minute segs ! i)
                 \<noteq> start_minute (sort_key start_minute segs ! Suc i)
             \<and> e = ValueError
                     (''Timeline gap detected: segment ends at ''
                      @ str_int (start_minute (sort_key start_minute segs ! i)
                                 + TimelineSegment.duration (sort_key start_minute segs ! i))
                      @ '' but next starts at ''
                      @ str_int (start_minute (sort_key start_minute segs ! Suc i))))"
  proof (intro allI impI)
    fix e assume "segs \<noteq> [] \<and> validate_timeline_continuity segs = Inl e"
    then have "check_continuity (sort_key start_minute segs) = Inl e"
      by (auto simp: validate_timeline_Inl)
    from check_continuity_gap[OF this, unfolded end_minute_def gap_message_def]
    show "\<exists>i. Suc i < length segs
             \<and> (\<forall>j<i. start_minute (sort_key start_minute segs ! j)
                         + TimelineSegment.duration (sort_key start_minute segs ! j)
                       = start_minute (sort_key start_minute segs ! Suc j))
             \<and> start_minute (sort_key start_minute segs ! i)
                   + TimelineSegment.duration (sort_key start_minute segs ! i)
                 \<noteq> start_minute (sort_key start_minute segs ! Suc i)
             \<and> e = ValueError
                     (''Timeline gap detected: segment ends at ''
                      @ str_int (start_minute (sort_key start_minute segs ! i)
                                 + TimelineSegment.duration (sort_key start_minute segs ! i))
                      @ '' but next starts at ''
                      @ str_int (start_minute (sort_key start_minute segs ! Suc i)))"
      by simp
  qed
  show "\<forall>e1 s1 e2 s2.
         ''Timeline gap detected: segment ends at '' @ str_int e1
           @ '' but next starts at '' @ str_int s1
         = ''Timeline gap detected: segment ends at '' @ str_int e2
           @ '' but next starts at '' @ str_int s2
         \<longrightarrow> e1 = e2 \<and> s1 = s2"
    using gap_text_names_minutes by blast
  show "(\<exists>p. LecturePeriod_new a = Inr p) \<longleftrightarrow>
         1 \<le> period_number a
         \<and> 2 \<le> length (learning_objectives a)
         \<and> (\<forall>s\<in>set (detailed_timeline a).
               0 \<le> start_minute s \<and> 1 \<le> TimelineSegment.duration s)
         \<and> (\<exists>r. validate_timeline_continuity (detailed_timeline a) = Inr r)
         \<and> 1 \<le> length (detailed_activities a)
         \<and> (\<forall>x\<in>set (detailed_activities a). 1 \<le> Activity.duration x)
         \<and> 1 \<le> Assessment.estimated_time (assessment a)
         \<and> 5 \<le> Homework.estimated_time (homework a)"
    by (rule LecturePeriod_new_Inr_iff)
  show "\<forall>m. (\<forall>s\<in>set (detailed_timeline a).
               0 \<le> start_minute s \<and> 1 \<le> TimelineSegment.duration s)
            \<and> validate_timeline_continuity (detailed_timeline a) = Inl (ValueError m) \<longrightarrow>
          (\<exists>es. LecturePeriod_new a = Inl (ValidationError ''LecturePeriod'' es)
             \<and> LineError [Field ''detailed_timeline''] (value_error m)
                  (ListInput (length (detailed_timeline a))) \<in> set es)"
    using LecturePeriod_new_gap_error by blast
qed

theorem timeline_tiling_witness:
  "validate_timeline_continuity [seg 10 5, seg 0 10] = Inr [seg 0 10, seg 10 5]
   \<and> validate_timeline_continuity [seg 10 5, seg 0 9]
       = Inl (ValueError ''Timeline gap detected: segment ends at 9 but next starts at 10'')
   \<and> validate_timeline_continuity [seg 10 5, seg 0 11]
       = Inl (ValueError ''Timeline gap detected: segment ends at 11 but next starts at 10'')
   \<and> LecturePeriod_new (example_lecture 1 [seg 10 5, seg 0 9])
       = Inl (ValidationError ''LecturePeriod''
                [LineError [Field ''detailed_timeline'']
                   (value_error ''Timeline gap detected: segment ends at 9 but next starts at 10'')
                   (ListInput 2)])
   \<and> (\<exists>p. LecturePeriod_new (example_lecture 1 [seg 10 5, seg 0 10]) = Inr p)"
proof -
  have g: "validate_timeline_continuity [seg 10 5, seg 0 9]
       = Inl (ValueError ''Timeline gap detected: segment ends at 9 but next starts at 10'')"
    by (simp add: validate_timeline_continuity_def seg_def end_minute_def gap_message_def
        str_int_def str_nat.simps digit_def)
  have o: "validate_timeline_continuity [seg 10 5, seg 0 11]
       = Inl (ValueError ''Timeline gap detected: segment ends at 11 but next starts at 10'')"
    by (simp add: validate_timeline_continuity_def seg_def end_minute_def gap_message_def
        str_int_def str_nat.simps digit_def)
  have t: "validate_timeline_continuity [seg 10 5, seg 0 10] = Inr [seg 0 10, seg 10 5]"
    by (simp add: validate_timeline_continuity_def seg_def end_minute_def)
  have n: "LecturePeriod_new (example_lecture 1 [seg 10 5, seg 0 9])
       = Inl (ValidationError ''LecturePeriod''
                [LineError [Field ''detailed_timeline'']
                   (value_error ''Timeline gap detected: segment ends at 9 but next starts at 10'')
                   (ListInput 2)])"
    by (simp add: LecturePeriod_new_def LecturePeriod_errors_def timeline_field_def
        validate_timeline_continuity_def item_errors_def check_list_def check_ge_def under_def
        TimelineSegment_errors_def Activity_errors_def Assessment_errors_def Homework_errors_def
        example_lecture_def seg_def end_minute_def gap_message_def str_int_def str_nat.simps
        digit_def)
  have h: "1 \<le> period_number (example_lecture 1 [seg 10 5, seg 0 10])
         \<and> 2 \<le> length (learning_objectives (example_lecture 1 [seg 10 5, seg 0 10]))
         \<and> (\<forall>s\<in>set (detailed_timeline (example_lecture 1 [seg 10 5, seg 0 10])).
               0 \<le> start_minute s \<and> 1 \<le> TimelineSegment.duration s)
         \<and> (\<exists>r. validate_timeline_continuity
                   (detailed_timeline (example_lecture 1 [seg 10 5, seg 0 10])) = Inr r)
         \<and> 1 \<le> length (detailed_activities (example_lecture 1 [seg 10 5, seg 0 10]))
         \<and> (\<forall>x\<in>set (detailed_activities (example_lecture 1 [seg 10 5, seg 0 10])).
               1 \<le> Activity.duration x)
         \<and> 1 \<le> Assessment.estimated_time (assessment (example_lecture 1 [seg 10 5, seg 0 10]))
         \<and> 5 \<le> Homework.estimated_time (homework (example_lecture 1 [seg 10 5, seg 0 10]))"
    using t by (simp add: example_lecture_def seg_def)
  from timeline_tiling[of "[seg 10 5, seg 0 9]" "example_lecture 1 [seg 10 5, seg 0 10]"] h
  have "\<exists>p. LecturePeriod_new (example_lecture 1 [seg 10 5, seg 0 10]) = Inr p" by blast
  with g o t n show ?thesis by blast
qed

text \<open>
  Claim C9 (the stored timeline is the sorted one). A constructed \<open>LecturePeriod\<close> holds the
  caller's segments sorted by \<open>start_minute\<close>, in nondecreasing order: the same segments,
  reordered, every other field as given. The order of the input is not kept: the witness
  constructs a period from segments given out of order and stores them in another order.
\<close>

theorem stored_timeline_sorted:
  assumes "LecturePeriod_new a = Inr p"
  shows "detailed_timeline p = sort_key start_minute (detailed_timeline a)
         \<and> sorted (map start_minute (detailed_timeline p))
         \<and> mset (detailed_timeline p) = mset (detailed_timeline a)
         \<and> p = a\<lparr>detailed_timeline := sort_key start_minute (detailed_timeline a)\<rparr>"
proof -
  from LecturePeriod_new_Inr[OF assms] obtain r where
    r: "timeline_field (detailed_timeline a) = Inr r" and p: "p = a\<lparr>detailed_timeline := r\<rparr>"
    by blast
  from timeline_field_Inr[OF r] have "r = sort_key start_minute (detailed_timeline a)"
    by (simp add: validate_timeline_Inr)
  with p show ?thesis by simp
qed

theorem stored_timeline_sorted_witness:
  "LecturePeriod_new (example_lecture 1 [seg 10 5, seg 0 10])
     = Inr (example_lecture 1 [seg 0 10, seg 10 5])
   \<and> detailed_timeline (example_lecture 1 [seg 0 10, seg 10 5])
       = sort_key start_minute (detailed_timeline (example_lecture 1 [seg 10 5, seg 0 10]))
   \<and> detailed_timeline (example_lecture 1 [seg 0 10, seg 10 5])
       \<noteq> detailed_timeline (example_lecture 1 [seg 10 5, seg 0 10])"
proof -
  have n: "LecturePeriod_new (example_lecture 1 [seg 10 5, seg 0 10])
     = Inr (example_lecture 1 [seg 0 10, seg 10 5])"
    by (simp add: LecturePeriod_new_def LecturePeriod_errors_def timeline_field_def
        validate_timeline_continuity_def item_errors_def check_list_def check_ge_def under_def
        TimelineSegment_errors_def Activity_errors_def Assessment_errors_def Homework_errors_def
        example_lecture_def seg_def end_minute_def)
  have d: "detailed_timeline (example_lecture 1 [seg 0 10, seg 10 5])
       \<noteq> detailed_timeline (example_lecture 1 [seg 10 5, seg 0 10])"
    by (simp add: example_lecture_def seg_def)
  from stored_timeline_sorted[OF n] n d show ?thesis by blast
qed

lemma LessonPlanRequest_errors_Nil:
  "LessonPlanRequest_errors a = [] \<longleftrightarrow>
     3 \<le> length (topic a) \<and> 30 \<le> lecture_duration a \<and> lecture_duration a \<le> 180
     \<and> 1 \<le> total_periods a \<and> total_periods a \<le> 30"
  by (auto simp: LessonPlanRequest_errors_def check_str_min_def check_range_def)

lemma LessonPlanRequest_new_Inr:
  "LessonPlanRequest_new a = Inr r \<longleftrightarrow> r = a \<and> LessonPlanRequest_errors a = []"
  by (auto simp: LessonPlanRequest_new_def Let_def validate_programming_language_for_labs_def)

lemma LessonPlanRequest_new_Inl:
  "LessonPlanRequest_new a = Inl err \<longleftrightarrow>
     err = ValidationError ''LessonPlanRequest'' (LessonPlanRequest_errors a)
     \<and> LessonPlanRequest_errors a \<noteq> []"
  by (auto simp: LessonPlanRequest_new_def Let_def)

text \<open>
  Claim C8 (request field bounds). Constructing a \<open>LessonPlanRequest\<close> succeeds exactly when
  \<open>lecture_duration\<close> is in [30, 180], \<open>total_periods\<close> is in [1, 30] and \<open>topic\<close> has at least
  3 characters, and then the request holds the values given. Every violated bound makes
  the construction fail with a validation error that has a line for that field, naming the
  field, the bound and the value received.
\<close>

theorem request_field_bounds:
  "((\<exists>r. LessonPlanRequest_new a = Inr r) \<longleftrightarrow>
      30 \<le> lecture_duration a \<and> lecture_duration a \<le> 180
      \<and> 1 \<le> total_periods a \<and> total_periods a \<le> 30 \<and> 3 \<le> length (topic a))
   \<and> (\<forall>r. LessonPlanRequest_new a = Inr r \<longrightarrow> r = a)
   \<and> (\<forall>err. LessonPlanRequest_new a = Inl err \<longrightarrow>
         (\<exists>es. err = ValidationError ''LessonPlanRequest'' es
            \<and> (length (topic a) < 3 \<longrightarrow>
                 LineError [Field ''topic''] (string_too_short 3) (StrInput (topic a)) \<in> set es)
            \<and> (lecture_duration a < 30 \<longrightarrow>
                 LineError [Field ''lecture_duration''] (greater_than_equal 30)
                   (IntInput (lecture_duration a)) \<in> set es)
            \<and> (180 < lecture_duration a \<longrightarrow>
                 LineError [Field ''lecture_duration''] (less_than_equal 180)
                   (IntInput (lecture_duration a)) \<in> set es)
            \<and> (total_periods a < 1 \<longrightarrow>
                 LineError [Field ''total_periods''] (greater_than_equal 1)
                   (IntInput (total_periods a)) \<in> set es)
            \<and> (30 < total_periods a \<longrightarrow>
                 LineError [Field ''total_periods''] (less_than_equal 30)
                   (IntInput (total_periods a)) \<in> set es)))"
proof (intro conjI)
  show "(\<exists>r. LessonPlanRequest_new a = Inr r) \<longleftrightarrow>
      30 \<le> lecture_duration a \<and> lecture_duration a \<le> 180
      \<and> 1 \<le> total_periods a \<and> total_periods a \<le> 30 \<and> 3 \<le> length (topic a)"
    by (auto simp: LessonPlanRequest_new_Inr LessonPlanRequest_errors_Nil)
  show "\<forall>r. LessonPlanRequest_new a = Inr r \<longrightarrow> r = a"
    by (simp add: LessonPlanRequest_new_Inr)
  show "\<forall>err. LessonPlanRequest_new a = Inl err \<longrightarrow>
         (\<exists>es. err = ValidationError ''LessonPlanRequest'' es
            \<and> (length (topic a) < 3 \<longrightarrow>
                 LineError [Field ''topic''] (string_too_short 3) (StrInput (topic a)) \<in> set es)
            \<and> (lecture_duration a < 30 \<longrightarrow>
                 LineError [Field ''lecture_duration''] (greater_than_equal 30)
                   (IntInput (lecture_duration a)) \<in> set es)
            \<and> (180 < lecture_duration a \<longrightarrow>
                 LineError [Field ''lecture_duration''] (less_than_equal 180)
                   (IntInput (lecture_duration a)) \<in> set es)
            \<and> (total_periods a < 1 \<longrightarrow>
                 LineError [Field ''total_periods''] (greater_than_equal 1)
                   (IntInput (total_periods a)) \<in> set es)
            \<and> (30 < total_periods a \<longrightarrow>
                 LineError [Field ''total_periods''] (less_than_equal 30)
                   (IntInput (total_periods a)) \<in> set es))"
    by (simp add: LessonPlanRequest_new_Inl LessonPlanRequest_errors_def check_str_min_def
        check_range_def)
qed

theorem request_field_bounds_witness:
  "(\<exists>r. LessonPlanRequest_new (example_request ''Photosynthesis'' 45 3) = Inr r)
   \<and> LessonPlanRequest_new (example_request ''ab'' 10 31)
       = Inl (ValidationError ''LessonPlanRequest''
           [LineError [Field ''topic''] (string_too_short 3) (StrInput ''ab''),
            LineError [Field ''lecture_duration''] (greater_than_equal 30) (IntInput 10),
            LineError [Field ''total_periods''] (less_than_equal 30) (IntInput 31)])"
proof -
  have b: "30 \<le> lecture_duration (example_request ''Photosynthesis'' 45 3)
      \<and> lecture_duration (example_request ''Photosynthesis'' 45 3) \<le> 180
      \<and> 1 \<le> total_periods (example_request ''Photosynthesis'' 45 3)
      \<and> total_periods (example_request ''Photosynthesis'' 45 3) \<le> 30
      \<and> 3 \<le> length (topic (example_request ''Photosynthesis'' 45 3))"
    by (simp add: example_request_def)
  have e: "LessonPlanRequest_new (example_request ''ab'' 10 31)
       = Inl (ValidationError ''LessonPlanRequest''
           [LineError [Field ''topic''] (string_too_short 3) (StrInput ''ab''),
            LineError [Field ''lecture_duration''] (greater_than_equal 30) (IntInput 10),
            LineError [Field ''total_periods''] (less_than_equal 30) (IntInput 31)])"
    by (simp add: LessonPlanRequest_new_def LessonPlanRequest_errors_def check_str_min_def
        check_range_def example_request_def)
  from request_field_bounds[of "example_request ''Photosynthesis'' 45 3"] b e
  show ?thesis by blast
qed

lemma LecturePeriod_new_Inl_nonempty:
  "LecturePeriod_new a = Inl (ValidationError n es) \<Longrightarrow> es \<noteq> []"
  by (auto simp: LecturePeriod_new_def LecturePeriod_errors_def Let_def
      split: if_splits sum.splits dest: timeline_field_Inl_nonempty)

lemma under_Nil [simp]: "under pre es = [] \<longleftrightarrow> es = []"
  by (simp add: under_def)

lemma lectures_items_valid_length:
  "lectures_items i ls = ([], vs) \<Longrightarrow> length vs = length ls"
proof (induction ls arbitrary: i vs)
  case Nil
  then show ?case by simp
next
  case (Cons a rest)
  obtain es vs' where r: "lectures_items (Suc i) rest = (es, vs')"
    by (cases "lectures_items (Suc i) rest")
  show ?case
  proof (cases "LecturePeriod_new a")
    case (Inl err)
    obtain n es0 where err: "err = ValidationError n es0" by (cases err)
    with Inl LecturePeriod_new_Inl_nonempty have "es0 \<noteq> []" by blast
    with Cons.prems r Inl err show ?thesis by simp
  next
    case (Inr v)
    with Cons.prems r have "es = []" and "vs = v # vs'" by simp_all
    with r Cons.IH[of "Suc i" vs'] show ?thesis by simp
  qed
qed

lemma lectures_items_all_valid:
  "\<forall>l\<in>set ls. \<exists>v. LecturePeriod_new l = Inr v \<Longrightarrow> \<exists>vs. lectures_items i ls = ([], vs)"
proof (induction ls arbitrary: i)
  case Nil
  then show ?case by simp
next
  case (Cons a rest)
  then obtain v where v: "LecturePeriod_new a = Inr v" by auto
  from Cons obtain vs where "lectures_items (Suc i) rest = ([], vs)" by fastforce
  with v show ?case by simp
qed

lemma request_field_valid:
  assumes "LessonPlanRequest_new a = Inr r"
  shows "request_field a = ([], Some a)"
proof -
  from assms have "r = a" by (simp add: LessonPlanRequest_new_Inr)
  with assms show ?thesis by (simp add: request_field_def)
qed

lemma request_field_Some:
  "request_field a = (es, Some r) \<Longrightarrow> r = a \<and> es = [] \<and> LessonPlanRequest_errors a = []"
  by (auto simp: request_field_def LessonPlanRequest_new_Inr split: sum.splits validation_error.splits)

lemma lectures_field_Inr:
  "lectures_field ls (Some r) = Inr vs \<Longrightarrow> int (length ls) = total_periods r"
proof -
  assume a: "lectures_field ls (Some r) = Inr vs"
  obtain es vs' where i: "lectures_items 0 ls = (es, vs')" by (cases "lectures_items 0 ls")
  with a have e: "es = []" by (auto simp: lectures_field_def split: if_splits)
  with i have l: "length vs' = length ls" by (simp add: lectures_items_valid_length)
  from a i e have "int (length vs') = total_periods r"
    by (auto simp: lectures_field_def validate_lecture_count_def split: if_splits)
  with l show ?thesis by simp
qed

lemma lectures_field_valid:
  assumes "lectures_items 0 ls = ([], vs)"
  shows "lectures_field ls (Some r) =
     (if ls = [] then Inl [LineError [Field ''lectures''] (too_short 1) (ListInput 0)]
      else if int (length ls) \<noteq> total_periods r
      then Inl [LineError [Field ''lectures'']
                 (value_error (''Expected '' @ str_int (total_periods r) @ '' lectures, got ''
                               @ str_nat (length ls)))
                 (ListInput (length ls))]
      else Inr vs)"
proof -
  from assms have "length vs = length ls" by (rule lectures_items_valid_length)
  with assms show ?thesis
    by (auto simp: lectures_field_def validate_lecture_count_def)
qed

lemma example_lecture_valid:
  "LecturePeriod_new (example_lecture n [seg 0 45]) = (if n < 1 then
       Inl (ValidationError ''LecturePeriod''
              [LineError [Field ''period_number''] (greater_than_equal 1) (IntInput n)])
     else Inr (example_lecture n [seg 0 45]))"
  by (simp add: LecturePeriod_new_def LecturePeriod_errors_def timeline_field_def
        validate_timeline_continuity_def item_errors_def check_list_def check_ge_def under_def
        TimelineSegment_errors_def Activity_errors_def Assessment_errors_def Homework_errors_def
        example_lecture_def seg_def end_minute_def)

text \<open>
  Claim C3 (lecture-count match), as the claim states it, fails for an empty list of
  lectures: with a valid request for 4 periods and no lecture, the counts differ, but the
  construction fails on the minimum length of \<open>lectures\<close> (\<open>min_length=1\<close>); the count validator
  does not run and no error names the expected and the actual count.
\<close>

theorem lecture_count_mismatch_counterexample:
  "int (length (lectures (example_plan (example_request ''Photosynthesis'' 45 4) [])))
     \<noteq> total_periods (request (example_plan (example_request ''Photosynthesis'' 45 4) []))
   \<and> CompleteLessonPlan_new (example_plan (example_request ''Photosynthesis'' 45 4) [])
       = Inl (ValidationError ''CompleteLessonPlan''
                [LineError [Field ''lectures''] (too_short 1) (ListInput 0)])
   \<and> CompleteLessonPlan_new (example_plan (example_request ''Photosynthesis'' 45 4) [])
       \<noteq> Inl (ValidationError ''CompleteLessonPlan''
                [LineError [Field ''lectures'']
                   (value_error ''Expected 4 lectures, got 0'') (ListInput 0)])"
  by (simp add: CompleteLessonPlan_new_def request_field_def lectures_field_def
      LessonPlanRequest_new_def LessonPlanRequest_errors_def check_str_min_def check_range_def
      validate_programming_language_for_labs_def example_plan_def example_request_def)

text \<open>
  Claim C3 (lecture-count match), amended. A constructed \<open>CompleteLessonPlan\<close> has as many
  lectures as its request's \<open>total_periods\<close>, a number in [1, 30]. For a valid request and
  valid lectures: an empty list of lectures fails on the minimum length of the list; a
  non-empty list whose length differs from \<open>total_periods\<close> fails with the error of the count
  validator, naming the expected and the actual count; a list whose length equals
  \<open>total_periods\<close> is accepted.
\<close>

theorem lecture_count_match:
  "(\<forall>p. CompleteLessonPlan_new a = Inr p \<longrightarrow>
        int (length (lectures a)) = total_periods (request a)
        \<and> 1 \<le> total_periods (request a) \<and> total_periods (request a) \<le> 30)
   \<and> ((\<exists>r. LessonPlanRequest_new (request a) = Inr r)
        \<and> (\<forall>l\<in>set (lectures a). \<exists>v. LecturePeriod_new l = Inr v) \<longrightarrow>
       (lectures a = [] \<longrightarrow>
          CompleteLessonPlan_new a
          = Inl (ValidationError ''CompleteLessonPlan''
                   [LineError [Field ''lectures''] (too_short 1) (ListInput 0)]))
       \<and> (lectures a \<noteq> [] \<and> int (length (lectures a)) \<noteq> total_periods (request a) \<longrightarrow>
          CompleteLessonPlan_new a
          = Inl (ValidationError ''CompleteLessonPlan''
                   [LineError [Field ''lectures'']
                      (value_error (''Expected '' @ str_int (total_periods (request a))
                                    @ '' lectures, got '' @ str_nat (length (lectures a))))
                      (ListInput (length (lectures a)))]))
       \<and> (int (length (lectures a)) = total_periods (request a) \<longrightarrow>
          (\<exists>p. CompleteLessonPlan_new a = Inr p)))"
proof (intro conjI allI impI)
  fix p assume s: "CompleteLessonPlan_new a = Inr p"
  obtain es req where rf: "request_field (request a) = (es, req)"
    by (cases "request_field (request a)")
  from s rf obtain r ls where req: "req = Some r"
    and lf: "lectures_field (lectures a) (Some r) = Inr ls"
    by (auto simp: CompleteLessonPlan_new_def split: option.splits sum.splits)
  from rf req request_field_Some have r: "r = request a" and v: "LessonPlanRequest_errors (request a) = []"
    by blast+
  from lectures_field_Inr[OF lf] r
  show "int (length (lectures a)) = total_periods (request a)" by simp
  from v show "1 \<le> total_periods (request a)" "total_periods (request a) \<le> 30"
    by (simp_all add: LessonPlanRequest_errors_Nil)
next
  assume h: "(\<exists>r. LessonPlanRequest_new (request a) = Inr r)
        \<and> (\<forall>l\<in>set (lectures a). \<exists>v. LecturePeriod_new l = Inr v)"
  then have rf: "request_field (request a) = ([], Some (request a))"
    using request_field_valid by blast
  from h lectures_items_all_valid obtain vs where vs: "lectures_items 0 (lectures a) = ([], vs)"
    by blast
  note lf = lectures_field_valid[OF vs, of "request a"]
  {
    assume "lectures a = []"
    with rf lf show "CompleteLessonPlan_new a
          = Inl (ValidationError ''CompleteLessonPlan''
                   [LineError [Field ''lectures''] (too_short 1) (ListInput 0)])"
      by (simp add: CompleteLessonPlan_new_def)
  next
    assume "lectures a \<noteq> [] \<and> int (length (lectures a)) \<noteq> total_periods (request a)"
    with rf lf show "CompleteLessonPlan_new a
          = Inl (ValidationError ''CompleteLessonPlan''
                   [LineError [Field ''lectures'']
                      (value_error (''Expected '' @ str_int (total_periods (request a))
                                    @ '' lectures, got '' @ str_nat (length (lectures a))))
                      (ListInput (length (lectures a)))])"
      by (simp add: CompleteLessonPlan_new_def)
  next
    assume eq: "int (length (lectures a)) = total_periods (request a)"
    from h have "1 \<le> total_periods (request a)"
      by (auto simp: LessonPlanRequest_new_Inr LessonPlanRequest_errors_Nil)
    with eq have "lectures a \<noteq> []" by auto
    with rf lf eq show "\<exists>p. CompleteLessonPlan_new a = Inr p"
      by (simp add: CompleteLessonPlan_new_def)
  }
qed

theorem lecture_count_match_witness:
  "(\<exists>p. CompleteLessonPlan_new
          (example_plan (example_request ''Photosynthesis'' 45 2)
             [example_lecture 1 [seg 0 45], example_lecture 2 [seg 0 45]]) = Inr p)
   \<and> CompleteLessonPlan_new
         (example_plan (example_request ''Photosynthesis'' 45 4)
            [example_lecture 1 [seg 0 45], example_lecture 2 [seg 0 45],
             example_lecture 3 [seg 0 45]])
       = Inl (ValidationError ''CompleteLessonPlan''
                [LineError [Field ''lectures'']
                   (value_error ''Expected 4 lectures, got 3'') (ListInput 3)])"
proof -
  let ?P = "example_plan (example_request ''Photosynthesis'' 45 2)
             [example_lecture 1 [seg 0 45], example_lecture 2 [seg 0 45]]"
  let ?Q = "example_plan (example_request ''Photosynthesis'' 45 4)
            [example_lecture 1 [seg 0 45], example_lecture 2 [seg 0 45],
             example_lecture 3 [seg 0 45]]"
  have rp: "\<exists>r. LessonPlanRequest_new (request ?P) = Inr r"
    by (simp add: LessonPlanRequest_new_Inr LessonPlanRequest_errors_Nil example_plan_def
        example_request_def)
  have rq: "\<exists>r. LessonPlanRequest_new (request ?Q) = Inr r"
    by (simp add: LessonPlanRequest_new_Inr LessonPlanRequest_errors_Nil example_plan_def
        example_request_def)
  have lp: "\<forall>l\<in>set (lectures ?P). \<exists>v. LecturePeriod_new l = Inr v"
    by (simp add: example_plan_def example_lecture_valid)
  have lq: "\<forall>l\<in>set (lectures ?Q). \<exists>v. LecturePeriod_new l = Inr v"
    by (simp add: example_plan_def example_lecture_valid)
  have cp: "int (length (lectures ?P)) = total_periods (request ?P)"
    by (simp add: example_plan_def example_request_def)
  have cq: "lectures ?Q \<noteq> [] \<and> int (length (lectures ?Q)) \<noteq> total_periods (request ?Q)"
    by (simp add: example_plan_def example_request_def)
  have m: "''Expected '' @ str_int (total_periods (request ?Q)) @ '' lectures, got ''
            @ str_nat (length (lectures ?Q)) = ''Expected 4 lectures, got 3''"
    by (simp add: example_plan_def example_request_def str_int_def digit_def)
  have n: "length (lectures ?Q) = 3" by (simp add: example_plan_def)
  from lecture_count_match[of ?P] rp lp cp
  have 1: "\<exists>p. CompleteLessonPlan_new ?P = Inr p" by blast
  from lecture_count_match[of ?Q] rq lq cq
  have "CompleteLessonPlan_new ?Q
          = Inl (ValidationError ''CompleteLessonPlan''
                   [LineError [Field ''lectures'']
                      (value_error (''Expected '' @ str_int (total_periods (request ?Q))
                                    @ '' lectures, got '' @ str_nat (length (lectures ?Q))))
                      (ListInput (length (lectures ?Q)))])"
    by blast
  with m n have 2: "CompleteLessonPlan_new ?Q
       = Inl (ValidationError ''CompleteLessonPlan''
                [LineError [Field ''lectures'']
                   (value_error ''Expected 4 lectures, got 3'') (ListInput 3)])"
    by simp
  from 1 2 show ?thesis by blast
qed

section \<open>Properties of staging and of the context cache\<close>

lemma concat_file_blocks [simp]: "concat (file_blocks bs) = bs"
proof (induction bs rule: file_blocks.induct)
  case (1 bs)
  show ?case
  proof (cases "bs = []")
    case True
    then show ?thesis by (simp add: file_blocks.simps)
  next
    case False
    with 1 have "concat (file_blocks (drop 4096 bs)) = drop 4096 bs" by simp
    with False show ?thesis by (subst file_blocks.simps) simp
  qed
qed

lemma compute_file_hash_Some [simp]:
  "local_files E p = Some c \<Longrightarrow> compute_file_hash E p = Inr (sha256_hexdigest E c)"
  by (simp add: compute_file_hash_def)

lemma puts_append [simp]: "puts (xs @ ys) = puts xs @ puts ys"
  by (induction xs rule: puts.induct) simp_all

lemma upload_loop_append:
  "upload_loop E b (xs @ ys) acc w =
     (case upload_loop E b xs acc w of
        (Inl e, w') \<Rightarrow> (Inl e, w')
      | (Inr us, w') \<Rightarrow> upload_loop E b ys us w')"
proof (induction xs arbitrary: acc w)
  case Nil
  show ?case by simp
next
  case (Cons p xs)
  show ?case
    by (simp add: Cons.IH Let_def split: sum.splits prod.splits)
qed

lemma upload_loop_uris:
  "upload_loop E b fs acc w = (Inr us, w') \<Longrightarrow> us = acc @ map (gcs_uri_of E b) fs"
proof (induction fs arbitrary: acc w)
  case Nil
  then show ?case by simp
next
  case (Cons p fs)
  from Cons.prems obtain c where c: "local_files E p = Some c"
    by (cases "local_files E p") (auto split: if_splits)
  let ?n = "''lesson-materials/'' @ sha256_hexdigest E c @ ''/'' @ Path_name p"
  from Cons.prems c obtain w2 where
    "upload_loop E b fs (acc @ [''gs://'' @ b @ ''/'' @ ?n]) w2 = (Inr us, w')"
    by (auto simp: Let_def split: if_splits sum.splits prod.splits)
  from Cons.IH[OF this] c show ?case
    by (simp add: gcs_uri_of_def blob_name_of_def)
qed

lemma upload_files_to_gcs_Inr:
  "upload_files_to_gcs E fs S b w = (Inr us, w') \<Longrightarrow>
     upload_loop E b fs [] (w\<lparr>calls := calls w @ [StorageClient (google_cloud_project S)]\<rparr>)
       = (Inr us, w')"
  by (auto simp: upload_files_to_gcs_def reraise_def lib_def split: option.splits sum.splits prod.splits)

lemma gcs_uri_of_eq:
  "local_files E p1 = Some c \<Longrightarrow> local_files E p2 = Some c \<Longrightarrow>
     (gcs_uri_of E b p1 = gcs_uri_of E b p2) = (Path_name p1 = Path_name p2)"
  by (simp add: gcs_uri_of_def blob_name_of_def)

lemmas staging_eval =
  upload_files_to_gcs_def reraise_def lib_def blob_exists_def
  blob_upload_from_filename_def compute_file_hash_def Path_name_def Path_suffix_def
  has_suffix_def after_last_dot_def lower_def lower_char_def SUPPORTED_EXTENSIONS_def
  example_env_def no_faults_def empty_world_def default_bucket_def Let_def

lemma upload_loop_unsupported:
  "local_files E p \<noteq> None \<Longrightarrow> lower (Path_suffix p) \<notin> set SUPPORTED_EXTENSIONS \<Longrightarrow>
     upload_loop E b (p # rest) uris w
     = (Inl (ContextCacheError
               (''Unsupported file type: '' @ Path_suffix p @ ''. Supported: ''
                @ join '', '' SUPPORTED_EXTENSIONS)), w)"
  by (simp add: unsupported_message_def)

lemma upload_files_to_gcs_unsupported:
  assumes "local_files E p \<noteq> None" and "lower (Path_suffix p) \<notin> set SUPPORTED_EXTENSIONS"
    and "raises E (StorageClient (google_cloud_project S)) = None"
  shows "upload_files_to_gcs E (p # rest) S b w
         = (Inl (ContextCacheError
                   (''GCS upload failed: Unsupported file type: '' @ Path_suffix p
                    @ ''. Supported: '' @ join '', '' SUPPORTED_EXTENSIONS)),
            w\<lparr>calls := calls w @ [StorageClient (google_cloud_project S)]\<rparr>)"
  using assms(3)
  by (simp add: upload_files_to_gcs_def lib_def reraise_def
      upload_loop_unsupported[OF assms(1,2)] del: upload_loop.simps)

lemmas path_eval =
  Path_name_def Path_suffix_def Path_stem_def has_suffix_def after_last_dot_def lower_def
  lower_char_def

lemma notes_exe_loop:
  "datastore_loop (example_env [(''notes.exe'', ''MZ'')] no_faults) S parent
     [''notes.exe''] [] w
   = (Inr [], warning ''Unsupported file type''
                [(''file'', ''notes.exe''), (''type'', ''.exe'')] w)"
proof -
  have s: "Path_suffix ''notes.exe'' = ''.exe''" and n: "Path_name ''notes.exe'' = ''notes.exe''"
    by (simp_all add: path_eval)
  have u: "lower ''.exe'' \<notin> set datastore_SUPPORTED_EXTENSIONS"
    by (simp add: lower_def lower_char_def datastore_SUPPORTED_EXTENSIONS_def)
  show ?thesis by (simp add: s n u example_env_def)
qed

lemma upload_files_to_gcs_client_ok:
  "upload_files_to_gcs E fs S b w = (Inr us, w') \<Longrightarrow>
     raises E (StorageClient (google_cloud_project S)) = None"
  by (cases "raises E (StorageClient (google_cloud_project S))")
    (simp_all add: upload_files_to_gcs_def reraise_def lib_def)

lemma upload_files_to_gcs_unsupported_at:
  assumes ex: "local_files E p \<noteq> None"
    and un: "lower (Path_suffix p) \<notin> set SUPPORTED_EXTENSIONS"
    and pre: "upload_files_to_gcs E pre S b w = (Inr us, w')"
  shows "upload_files_to_gcs E (pre @ p # rest) S b w
         = (Inl (ContextCacheError
                   (''GCS upload failed: Unsupported file type: '' @ Path_suffix p
                    @ ''. Supported: '' @ join '', '' SUPPORTED_EXTENSIONS)), w')"
proof -
  let ?w = "w\<lparr>calls := calls w @ [StorageClient (google_cloud_project S)]\<rparr>"
  from upload_files_to_gcs_client_ok[OF pre]
  have c: "raises E (StorageClient (google_cloud_project S)) = None" .
  from upload_files_to_gcs_Inr[OF pre] have l: "upload_loop E b pre [] ?w = (Inr us, w')" .
  have "upload_loop E b (pre @ p # rest) [] ?w = upload_loop E b (p # rest) us w'"
    by (simp only: upload_loop_append l prod.case sum.case)
  also have "\<dots> = (Inl (ContextCacheError
               (''Unsupported file type: '' @ Path_suffix p @ ''. Supported: ''
                @ join '', '' SUPPORTED_EXTENSIONS)), w')"
    by (rule upload_loop_unsupported[OF ex un])
  finally have "upload_loop E b (pre @ p # rest) [] ?w
      = (Inl (ContextCacheError
               (''Unsupported file type: '' @ Path_suffix p @ ''. Supported: ''
                @ join '', '' SUPPORTED_EXTENSIONS)), w')" .
  with c show ?thesis
    by (simp add: upload_files_to_gcs_def lib_def reraise_def del: upload_loop.simps)
qed

lemma datastore_loop_append:
  "datastore_loop E S parent (xs @ ys) docs w =
     (case datastore_loop E S parent xs docs w of
        (Inl e, w') \<Rightarrow> (Inl e, w')
      | (Inr d, w') \<Rightarrow> datastore_loop E S parent ys d w')"
proof (induction xs arbitrary: docs w)
  case Nil
  show ?case by simp
next
  case (Cons p xs)
  show ?case
    by (simp add: Cons.IH Let_def split: sum.splits prod.splits)
qed

lemma datastore_loop_unsupported:
  assumes "local_files E p \<noteq> None"
    and "lower (Path_suffix p) \<notin> set datastore_SUPPORTED_EXTENSIONS"
  shows "datastore_loop E S parent (p # rest) docs w
         = datastore_loop E S parent rest docs
             (warning ''Unsupported file type''
                [(''file'', Path_name p), (''type'', Path_suffix p)] w)"
proof -
  from assms(1) obtain c where "local_files E p = Some c" by blast
  with assms(2) show ?thesis by simp
qed

text \<open>
  Claim C7 (unsupported extensions), as the claim states it, fails on the search-indexing
  path: \<open>upload_to_datastore\<close> given an existing file \<open>notes.exe\<close> raises nothing. It logs a
  warning, skips the file and returns an empty dictionary. And on the caching path a file
  that does not exist is refused for that, whatever its extension: \<open>ghost.exe\<close> gives the
  error \<open>File not found\<close>, which names no extension.
\<close>

theorem datastore_skips_unsupported_counterexample:
  "fst (upload_to_datastore (example_env [(''notes.exe'', ''MZ'')] no_faults)
          [''notes.exe''] example_settings empty_world) = Inr []
   \<and> warnings (snd (upload_to_datastore (example_env [(''notes.exe'', ''MZ'')] no_faults)
          [''notes.exe''] example_settings empty_world))
     = [(''Unsupported file type'', [(''file'', ''notes.exe''), (''type'', ''.exe'')])]
   \<and> calls (snd (upload_to_datastore (example_env [(''notes.exe'', ''MZ'')] no_faults)
          [''notes.exe''] example_settings empty_world))
     = [DocumentServiceClient]
   \<and> fst (upload_files_to_gcs (example_env [] no_faults) [''ghost.exe''] example_settings
            default_bucket empty_world)
     = Inl (ContextCacheError ''GCS upload failed: File not found: ghost.exe'')"
proof -
  have r: "raises (example_env [(''notes.exe'', ''MZ'')] no_faults) DocumentServiceClient = None"
    by (simp add: example_env_def no_faults_def)
  have d: "vertex_ai_search_datastore_id example_settings
           = Some ''projects/p/locations/global/collections/c/dataStores/d''"
    by (simp add: example_settings_def)
  have g: "fst (upload_files_to_gcs (example_env [] no_faults) [''ghost.exe''] example_settings
            default_bucket empty_world)
     = Inl (ContextCacheError ''GCS upload failed: File not found: ghost.exe'')"
    by (simp add: upload_files_to_gcs_def reraise_def lib_def example_env_def no_faults_def)
  have k: "fst (upload_to_datastore (example_env [(''notes.exe'', ''MZ'')] no_faults)
          [''notes.exe''] example_settings empty_world) = Inr []
   \<and> warnings (snd (upload_to_datastore (example_env [(''notes.exe'', ''MZ'')] no_faults)
          [''notes.exe''] example_settings empty_world))
     = [(''Unsupported file type'', [(''file'', ''notes.exe''), (''type'', ''.exe'')])]
   \<and> calls (snd (upload_to_datastore (example_env [(''notes.exe'', ''MZ'')] no_faults)
          [''notes.exe''] example_settings empty_world))
     = [DocumentServiceClient]"
    by (simp add: upload_to_datastore_def reraise_def lib_def r d notes_exe_loop warning_def
        empty_world_def del: datastore_loop.simps)
  from k g show ?thesis by blast
qed

text \<open>
  Claim C7 (unsupported extensions), amended. Let an existing file have a suffix that, in
  lower case, is outside the allow-list \<open>.pdf, .pptx, .docx, .txt, .md\<close>. When the loop of
  \<open>upload_files_to_gcs\<close> reaches the file it raises an error whose message names the suffix
  and makes no library call for the file. At whatever position the file stands in the input,
  if staging the files before it succeeds, the whole call fails with that message behind
  \<open>GCS upload failed:\<close>, in the world reached by staging the earlier files. The loop of
  \<open>upload_to_datastore\<close>, whose allow-list has \<open>.html\<close> in addition, raises nothing for an
  existing file outside its list, at whatever position: it logs a warning naming the file
  and the suffix and goes on with the remaining files. A file that does not exist is
  refused by the loop of \<open>upload_files_to_gcs\<close> as not found, before its suffix is looked at.
\<close>

theorem unsupported_extension:
  assumes ex: "local_files E p \<noteq> None"
  shows "(lower (Path_suffix p) \<notin> set SUPPORTED_EXTENSIONS \<longrightarrow>
            (\<exists>listing.
               (\<forall>uris w. upload_loop E b (p # rest) uris w
                  = (Inl (ContextCacheError
                            (''Unsupported file type: '' @ Path_suffix p @ ''. Supported: ''
                             @ listing)), w))
               \<and> (\<forall>pre us w w'.
                    upload_files_to_gcs E pre S b w = (Inr us, w') \<longrightarrow>
                    upload_files_to_gcs E (pre @ p # rest) S b w
                    = (Inl (ContextCacheError
                              (''GCS upload failed: Unsupported file type: '' @ Path_suffix p
                               @ ''. Supported: '' @ listing)), w'))))
         \<and> (lower (Path_suffix p) \<notin> set datastore_SUPPORTED_EXTENSIONS \<longrightarrow>
              (\<forall>pre docs w.
                 datastore_loop E S parent (pre @ p # rest) docs w
                 = (case datastore_loop E S parent pre docs w of
                      (Inl e, w') \<Rightarrow> (Inl e, w')
                    | (Inr d, w') \<Rightarrow>
                        datastore_loop E S parent rest d
                          (warning ''Unsupported file type''
                             [(''file'', Path_name p), (''type'', Path_suffix p)] w'))))
         \<and> set SUPPORTED_EXTENSIONS = {''.pdf'', ''.pptx'', ''.docx'', ''.txt'', ''.md''}
         \<and> set datastore_SUPPORTED_EXTENSIONS
             = {''.pdf'', ''.pptx'', ''.docx'', ''.txt'', ''.md'', ''.html''}
         \<and> (\<forall>q uris w.
               local_files E q = None \<longrightarrow>
               upload_loop E b (q # rest) uris w
               = (Inl (ContextCacheError (''File not found: '' @ q)), w))"
proof (intro conjI impI)
  assume u: "lower (Path_suffix p) \<notin> set SUPPORTED_EXTENSIONS"
  have 1: "\<forall>uris w. upload_loop E b (p # rest) uris w
                  = (Inl (ContextCacheError
                            (''Unsupported file type: '' @ Path_suffix p @ ''. Supported: ''
                             @ join '', '' SUPPORTED_EXTENSIONS)), w)"
    using upload_loop_unsupported[OF ex u] by blast
  have 2: "\<forall>pre us w w'.
                    upload_files_to_gcs E pre S b w = (Inr us, w') \<longrightarrow>
                    upload_files_to_gcs E (pre @ p # rest) S b w
                    = (Inl (ContextCacheError
                              (''GCS upload failed: Unsupported file type: '' @ Path_suffix p
                               @ ''. Supported: '' @ join '', '' SUPPORTED_EXTENSIONS)), w')"
    using upload_files_to_gcs_unsupported_at[OF ex u] by blast
  from 1 2 show "\<exists>listing.
               (\<forall>uris w. upload_loop E b (p # rest) uris w
                  = (Inl (ContextCacheError
                            (''Unsupported file type: '' @ Path_suffix p @ ''. Supported: ''
                             @ listing)), w))
               \<and> (\<forall>pre us w w'.
                    upload_files_to_gcs E pre S b w = (Inr us, w') \<longrightarrow>
                    upload_files_to_gcs E (pre @ p # rest) S b w
                    = (Inl (ContextCacheError
                              (''GCS upload failed: Unsupported file type: '' @ Path_suffix p
                               @ ''. Supported: '' @ listing)), w'))"
    by blast
next
  assume d: "lower (Path_suffix p) \<notin> set datastore_SUPPORTED_EXTENSIONS"
  show "\<forall>pre docs w.
                 datastore_loop E S parent (pre @ p # rest) docs w
                 = (case datastore_loop E S parent pre docs w of
                      (Inl e, w') \<Rightarrow> (Inl e, w')
                    | (Inr d, w') \<Rightarrow>
                        datastore_loop E S parent rest d
                          (warning ''Unsupported file type''
                             [(''file'', Path_name p), (''type'', Path_suffix p)] w'))"
    by (simp only: datastore_loop_append datastore_loop_unsupported[OF ex d]) simp
next
  show "set SUPPORTED_EXTENSIONS = {''.pdf'', ''.pptx'', ''.docx'', ''.txt'', ''.md''}"
    by (simp add: SUPPORTED_EXTENSIONS_def)
  show "set datastore_SUPPORTED_EXTENSIONS
             = {''.pdf'', ''.pptx'', ''.docx'', ''.txt'', ''.md'', ''.html''}"
    by (simp add: datastore_SUPPORTED_EXTENSIONS_def)
  show "\<forall>q uris w.
               local_files E q = None \<longrightarrow>
               upload_loop E b (q # rest) uris w
               = (Inl (ContextCacheError (''File not found: '' @ q)), w)"
    by simp
qed

theorem unsupported_extension_witness:
  "(\<exists>listing.
      upload_files_to_gcs
        (example_env [(''slides.pdf'', ''AAAA''), (''notes.exe'', ''MZ'')] no_faults)
        [''slides.pdf'', ''notes.exe''] example_settings default_bucket empty_world
      = (Inl (ContextCacheError
                (''GCS upload failed: Unsupported file type: .exe. Supported: '' @ listing)),
         snd (upload_files_to_gcs
                (example_env [(''slides.pdf'', ''AAAA''), (''notes.exe'', ''MZ'')] no_faults)
                [''slides.pdf''] example_settings default_bucket empty_world)))
   \<and> datastore_loop
        (example_env [(''slides.pdf'', ''AAAA''), (''notes.exe'', ''MZ'')] no_faults)
        example_settings ''parent'' [''notes.exe''] [] empty_world
      = (Inr [], warning ''Unsupported file type''
                  [(''file'', ''notes.exe''), (''type'', ''.exe'')] empty_world)"
proof -
  let ?E = "example_env [(''slides.pdf'', ''AAAA''), (''notes.exe'', ''MZ'')] no_faults"
  let ?r = "upload_files_to_gcs ?E [''slides.pdf''] example_settings default_bucket empty_world"
  have ex: "local_files ?E ''notes.exe'' \<noteq> None" by (simp add: example_env_def)
  have s: "Path_suffix ''notes.exe'' = ''.exe''" and n: "Path_name ''notes.exe'' = ''notes.exe''"
    by (simp_all add: path_eval)
  have u1: "lower (Path_suffix ''notes.exe'') \<notin> set SUPPORTED_EXTENSIONS"
    by (simp add: s lower_def lower_char_def SUPPORTED_EXTENSIONS_def)
  have u2: "lower (Path_suffix ''notes.exe'') \<notin> set datastore_SUPPORTED_EXTENSIONS"
    by (simp add: s lower_def lower_char_def datastore_SUPPORTED_EXTENSIONS_def)
  have f: "fst ?r = Inr [''gs://teacher-assistant-uploads/lesson-materials/AAAA/slides.pdf'']"
    by (simp add: staging_eval)
  have pre: "?r = (Inr [''gs://teacher-assistant-uploads/lesson-materials/AAAA/slides.pdf''],
                   snd ?r)"
    using f by (simp add: prod_eq_iff)
  note t = unsupported_extension[OF ex, where b = default_bucket and rest = "[]"
      and S = example_settings and parent = "''parent''"]
  from t[THEN conjunct1, THEN mp, OF u1] obtain listing where
    B: "\<forall>pre us w w'.
          upload_files_to_gcs ?E pre example_settings default_bucket w = (Inr us, w') \<longrightarrow>
          upload_files_to_gcs ?E (pre @ ''notes.exe'' # []) example_settings default_bucket w
          = (Inl (ContextCacheError
                    (''GCS upload failed: Unsupported file type: '' @ Path_suffix ''notes.exe''
                     @ ''. Supported: '' @ listing)), w')"
    by (elim exE conjE)
  from B[rule_format, OF pre] have
    a: "upload_files_to_gcs ?E ([''slides.pdf''] @ [''notes.exe'']) example_settings
          default_bucket empty_world
        = (Inl (ContextCacheError
                  (''GCS upload failed: Unsupported file type: '' @ Path_suffix ''notes.exe''
                   @ ''. Supported: '' @ listing)), snd ?r)" .
  from t[THEN conjunct2, THEN conjunct1, THEN mp, OF u2, rule_format, of "[]" "[]" empty_world]
  have
    b: "datastore_loop ?E example_settings ''parent'' ([] @ [''notes.exe'']) [] empty_world
        = (case datastore_loop ?E example_settings ''parent'' [] [] empty_world of
             (Inl e, w') \<Rightarrow> (Inl e, w')
           | (Inr d, w') \<Rightarrow>
               datastore_loop ?E example_settings ''parent'' [] d
                 (warning ''Unsupported file type''
                    [(''file'', Path_name ''notes.exe''), (''type'', Path_suffix ''notes.exe'')]
                    w'))" .
  from a have a': "upload_files_to_gcs ?E [''slides.pdf'', ''notes.exe''] example_settings
          default_bucket empty_world
      = (Inl (ContextCacheError
                (''GCS upload failed: Unsupported file type: .exe. Supported: '' @ listing)),
         snd ?r)"
    by (simp only: s append.simps)
  from b have b': "datastore_loop ?E example_settings ''parent'' [''notes.exe''] [] empty_world
      = (Inr [], warning ''Unsupported file type''
                  [(''file'', ''notes.exe''), (''type'', ''.exe'')] empty_world)"
    by (simp only: s n datastore_loop.simps append.simps prod.case sum.case)
  from a' b' show ?thesis by blast
qed

lemma create_after_upload:
  assumes "upload_files_to_gcs E (f0 # fs) S default_bucket w = (Inr uris, w1)"
    and "raises E (init_call S) = None"
  shows "create_context_cache E (Some (f0 # fs)) S instr ttl w =
     (case raises E (create_call S instr uris ttl f0) of
        Some m \<Rightarrow>
          (Inl (ContextCacheError (''Cache creation failed: '' @ m)),
           w1\<lparr>calls := calls w1 @ [init_call S, create_call S instr uris ttl f0]\<rparr>)
      | None \<Rightarrow>
          (Inr (''cachedContents/'' @ str_nat (issued w1)),
           w1\<lparr>calls := calls w1 @ [init_call S, create_call S instr uris ttl f0],
              caches := caches w1 @
                [\<lparr>cc_name = ''cachedContents/'' @ str_nat (issued w1),
                  cc_model_name = specialist_model S,
                  cc_system_instruction =
                    (case instr of
                       None \<Rightarrow> default_instruction
                     | Some s \<Rightarrow> if s = [] then default_instruction else s),
                  cc_contents = map (\<lambda>uri. (uri, ''application/pdf'')) uris,
                  cc_ttl = ttl,
                  cc_display_name = ''lesson-materials-'' @ Path_stem f0\<rparr>],
              issued := Suc (issued w1)\<rparr>))"
  using assms
  by (simp add: create_context_cache_def reraise_def lib_def CachedContent_create_def
      create_call_def init_call_def Let_def split: option.splits)

lemma upload_loop_single:
  assumes "local_files E p = Some c" and "lower (Path_suffix p) \<in> set SUPPORTED_EXTENSIONS"
  shows "upload_loop E b [p] acc w =
     (case raises E (BlobExists b (blob_name_of E p)) of
        Some m \<Rightarrow>
          (Inl (LibraryError m), w\<lparr>calls := calls w @ [BlobExists b (blob_name_of E p)]\<rparr>)
      | None \<Rightarrow>
          if blobs w (b, blob_name_of E p) \<noteq> None
          then (Inr (acc @ [gcs_uri_of E b p]),
                w\<lparr>calls := calls w @ [BlobExists b (blob_name_of E p)]\<rparr>)
          else (case raises E (BlobUploadFromFilename b (blob_name_of E p) p) of
                  Some m \<Rightarrow>
                    (Inl (LibraryError m),
                     w\<lparr>calls := calls w @ [BlobExists b (blob_name_of E p),
                                              BlobUploadFromFilename b (blob_name_of E p) p]\<rparr>)
                | None \<Rightarrow>
                    (Inr (acc @ [gcs_uri_of E b p]),
                     w\<lparr>calls := calls w @ [BlobExists b (blob_name_of E p),
                                              BlobUploadFromFilename b (blob_name_of E p) p],
                        blobs := (blobs w)((b, blob_name_of E p) \<mapsto> c)\<rparr>)))"
proof -
  have n: "blob_name_of E p = ''lesson-materials/'' @ sha256_hexdigest E c @ ''/'' @ Path_name p"
    using assms(1) by (simp add: blob_name_of_def)
  have h: "compute_file_hash E p = Inr (sha256_hexdigest E c)"
    using assms(1) by simp
  show ?thesis
    unfolding upload_loop.simps gcs_uri_of_def n
    using assms h
    by (simp add: blob_exists_def blob_upload_from_filename_def lib_def Let_def
        split: option.split)
qed


lemma upload_loop_single_fail:
  assumes "local_files E p = None \<or> lower (Path_suffix p) \<notin> set SUPPORTED_EXTENSIONS"
  shows "\<exists>e. upload_loop E b [p] acc w = (Inl e, w)"
  using assms by auto

lemma upload_loop_single_calls:
  assumes "upload_loop E b [p] acc w = (r, w')"
  shows "\<exists>cs. calls w' = calls w @ cs"
proof (cases "local_files E p = None \<or> lower (Path_suffix p) \<notin> set SUPPORTED_EXTENSIONS")
  case True
  from upload_loop_single_fail[OF True, of b acc w] assms have "w' = w" by auto
  then show ?thesis by simp
next
  case False
  then obtain c where c: "local_files E p = Some c"
    and s: "lower (Path_suffix p) \<in> set SUPPORTED_EXTENSIONS" by auto
  from assms show ?thesis
    unfolding upload_loop_single[OF c s]
    by (auto split: option.splits if_splits)
qed

lemma upload_loop_single_exists:
  assumes "upload_loop E b [p] acc w = (Inr us, w')"
  shows "BlobExists b (blob_name_of E p) \<in> set (calls w')"
proof (cases "local_files E p = None \<or> lower (Path_suffix p) \<notin> set SUPPORTED_EXTENSIONS")
  case True
  from upload_loop_single_fail[OF True, of b acc w] assms show ?thesis by auto
next
  case False
  then obtain c where c: "local_files E p = Some c"
    and s: "lower (Path_suffix p) \<in> set SUPPORTED_EXTENSIONS" by auto
  from assms show ?thesis
    unfolding upload_loop_single[OF c s]
    by (auto split: option.splits if_splits)
qed

lemma upload_loop_Cons_cases:
  assumes s: "upload_loop E b [p] acc w = (r1, w1)"
  shows "upload_loop E b (p # fs) acc w =
     (case r1 of Inl e \<Rightarrow> (Inl e, w1) | Inr us \<Rightarrow> upload_loop E b fs us w1)"
proof -
  have "upload_loop E b (p # fs) acc w = upload_loop E b ([p] @ fs) acc w"
    by (simp only: append.simps)
  also have "\<dots> = (case upload_loop E b [p] acc w of
        (Inl e, w') \<Rightarrow> (Inl e, w')
      | (Inr us, w') \<Rightarrow> upload_loop E b fs us w')"
    by (rule upload_loop_append)
  also have "\<dots> = (case r1 of Inl e \<Rightarrow> (Inl e, w1) | Inr us \<Rightarrow> upload_loop E b fs us w1)"
    by (simp only: s prod.case)
  finally show ?thesis .
qed

lemma upload_loop_calls:
  "upload_loop E b fs acc w = (r, w') \<Longrightarrow> \<exists>cs. calls w' = calls w @ cs"
proof (induction fs arbitrary: acc w)
  case Nil
  then show ?case by simp
next
  case (Cons p fs)
  obtain r1 w1 where s: "upload_loop E b [p] acc w = (r1, w1)"
    by (cases "upload_loop E b [p] acc w")
  from upload_loop_single_calls[OF s] obtain cs where cs: "calls w1 = calls w @ cs" by blast
  note step = upload_loop_Cons_cases[OF s, of fs]
  show ?case
  proof (cases r1)
    case (Inl e)
    with Cons.prems step have "w' = w1" by (simp del: upload_loop.simps)
    with cs show ?thesis by blast
  next
    case (Inr us)
    with Cons.prems step have "upload_loop E b fs us w1 = (r, w')"
      by (simp del: upload_loop.simps)
    from Cons.IH[OF this] cs show ?thesis by auto
  qed
qed

lemma upload_first_exists_call:
  assumes "upload_files_to_gcs E (f0 # fs) S b w = (Inr uris, w1)"
  shows "BlobExists b (blob_name_of E f0) \<in> set (calls w1)"
proof -
  let ?w = "w\<lparr>calls := calls w @ [StorageClient (google_cloud_project S)]\<rparr>"
  from upload_files_to_gcs_Inr[OF assms]
  have l: "upload_loop E b (f0 # fs) [] ?w = (Inr uris, w1)" .
  obtain r1 w2 where s: "upload_loop E b [f0] [] ?w = (r1, w2)"
    by (cases "upload_loop E b [f0] [] ?w")
  note step = upload_loop_Cons_cases[OF s, of fs]
  from l step obtain us where r1: "r1 = Inr us"
    and rest: "upload_loop E b fs us w2 = (Inr uris, w1)"
    by (cases r1) (simp_all del: upload_loop.simps)
  from s r1 have "upload_loop E b [f0] [] ?w = (Inr us, w2)" by simp
  then have "BlobExists b (blob_name_of E f0) \<in> set (calls w2)"
    by (rule upload_loop_single_exists)
  with upload_loop_calls[OF rest] show ?thesis by auto
qed

lemma create_Inr_cases:
  assumes "create_context_cache E (Some files) S instr ttl w = (Inr name, w')"
  shows "\<exists>f0 fs uris w1. files = f0 # fs
           \<and> upload_files_to_gcs E files S default_bucket w = (Inr uris, w1)
           \<and> raises E (init_call S) = None
           \<and> raises E (create_call S instr uris ttl f0) = None"
proof -
  obtain r1 w1 where up: "upload_files_to_gcs E files S default_bucket w = (r1, w1)"
    by (cases "upload_files_to_gcs E files S default_bucket w")
  from assms up obtain uris where r1: "r1 = Inr uris"
    by (cases r1) (simp_all add: create_context_cache_def reraise_def)
  from assms up r1 have i: "raises E (init_call S) = None"
    by (cases "raises E (init_call S)")
      (simp_all add: create_context_cache_def reraise_def lib_def init_call_def)
  from assms up r1 i obtain f0 fs where f: "files = f0 # fs"
    by (cases files)
      (simp_all add: create_context_cache_def reraise_def lib_def init_call_def)
  from up r1 f have up': "upload_files_to_gcs E (f0 # fs) S default_bucket w = (Inr uris, w1)"
    by simp
  from assms f have a: "create_context_cache E (Some (f0 # fs)) S instr ttl w = (Inr name, w')"
    by simp
  have "raises E (create_call S instr uris ttl f0) = None"
    using a[unfolded create_after_upload[OF up' i]]
    by (cases "raises E (create_call S instr uris ttl f0)") simp_all
  with f up r1 i show ?thesis by blast
qed

lemmas cache_eval =
  upload_files_to_gcs_def reraise_def lib_def blob_exists_def
  blob_upload_from_filename_def compute_file_hash_def path_eval SUPPORTED_EXTENSIONS_def
  example_env_def no_faults_def rejects_nonpositive_ttl_def empty_world_def default_bucket_def
  Let_def

text \<open>
  Claim C4 (cache TTL rejection), as the claim states it, fails: \<open>create_context_cache\<close> has
  no check of \<open>ttl\<close>. Called with a TTL of zero and one file, against a service that refuses
  a TTL that is not positive, it fails only when the service refuses the creation, and by
  then the file has been uploaded to the blob store.
\<close>

theorem ttl_not_validated_counterexample:
  "fst (create_context_cache (example_env [(''slides.pdf'', ''AAAA'')] rejects_nonpositive_ttl)
          (Some [''slides.pdf'']) example_settings None 0 empty_world)
     = Inl (ContextCacheError ''Cache creation failed: 400 ttl must be positive'')
   \<and> puts (calls (snd (create_context_cache
          (example_env [(''slides.pdf'', ''AAAA'')] rejects_nonpositive_ttl)
          (Some [''slides.pdf'']) example_settings None 0 empty_world)))
     = [(''teacher-assistant-uploads'', ''lesson-materials/AAAA/slides.pdf'')]"
proof -
  let ?E = "example_env [(''slides.pdf'', ''AAAA'')] rejects_nonpositive_ttl"
  let ?u = "''gs://teacher-assistant-uploads/lesson-materials/AAAA/slides.pdf''"
  let ?r = "upload_files_to_gcs ?E [''slides.pdf''] example_settings default_bucket empty_world"
  have f: "fst ?r = Inr [?u]" by (simp add: cache_eval)
  have up: "?r = (Inr [?u], snd ?r)" using f by (simp add: prod_eq_iff)
  have p: "puts (calls (snd ?r))
           = [(''teacher-assistant-uploads'', ''lesson-materials/AAAA/slides.pdf'')]"
    by (simp add: cache_eval)
  have init: "raises ?E (init_call example_settings) = None"
    by (simp add: example_env_def rejects_nonpositive_ttl_def init_call_def)
  have rej: "raises ?E (create_call example_settings None [?u] 0 ''slides.pdf'')
             = Some ''400 ttl must be positive''"
    by (simp add: example_env_def rejects_nonpositive_ttl_def create_call_def)
  have q: "puts [init_call example_settings,
                 create_call example_settings None [?u] 0 ''slides.pdf''] = []"
    by (simp add: init_call_def create_call_def)
  show ?thesis
    by (simp add: create_after_upload[OF up init] rej p q)
qed

text \<open>
  Claim C4 (cache TTL rejection), amended. \<open>create_context_cache\<close> does not validate \<open>ttl\<close>:
  for every TTL, positive or not, once the files are staged and Vertex AI is initialised
  it hands the TTL unchanged to the creation call of the managed-context service, and the
  outcome is the service's: the service's refusal behind \<open>Cache creation failed:\<close>, or the
  name of the new cache. The calls of staging, among them the existence check of the first
  file's blob, have been made before.
\<close>

theorem ttl_passed_through:
  assumes up: "upload_files_to_gcs E (f0 # fs) S default_bucket w = (Inr uris, w1)"
    and init: "raises E (init_call S) = None"
  shows "calls (snd (create_context_cache E (Some (f0 # fs)) S instr ttl w))
           = calls w1 @ [init_call S, create_call S instr uris ttl f0]
         \<and> fst (create_context_cache E (Some (f0 # fs)) S instr ttl w)
           = (case raises E (create_call S instr uris ttl f0) of
                Some m \<Rightarrow> Inl (ContextCacheError (''Cache creation failed: '' @ m))
              | None \<Rightarrow> Inr (''cachedContents/'' @ str_nat (issued w1)))
         \<and> BlobExists default_bucket (blob_name_of E f0) \<in> set (calls w1)"
  using upload_first_exists_call[OF up]
  by (simp add: create_after_upload[OF up init] split: option.split)

theorem ttl_passed_through_witness:
  "fst (create_context_cache (example_env [(''slides.pdf'', ''AAAA'')] rejects_nonpositive_ttl)
          (Some [''slides.pdf'']) example_settings None (- 1) empty_world)
     = Inl (ContextCacheError ''Cache creation failed: 400 ttl must be positive'')
   \<and> BlobExists default_bucket
         (blob_name_of (example_env [(''slides.pdf'', ''AAAA'')] rejects_nonpositive_ttl)
            ''slides.pdf'')
       \<in> set (calls (snd (upload_files_to_gcs
                (example_env [(''slides.pdf'', ''AAAA'')] rejects_nonpositive_ttl)
                [''slides.pdf''] example_settings default_bucket empty_world)))"
proof -
  let ?E = "example_env [(''slides.pdf'', ''AAAA'')] rejects_nonpositive_ttl"
  let ?u = "''gs://teacher-assistant-uploads/lesson-materials/AAAA/slides.pdf''"
  let ?r = "upload_files_to_gcs ?E [''slides.pdf''] example_settings default_bucket empty_world"
  have f: "fst ?r = Inr [?u]" by (simp add: cache_eval)
  have up: "?r = (Inr [?u], snd ?r)" using f by (simp add: prod_eq_iff)
  have init: "raises ?E (init_call example_settings) = None"
    by (simp add: example_env_def rejects_nonpositive_ttl_def init_call_def)
  have rej: "raises ?E (create_call example_settings None [?u] (- 1) ''slides.pdf'')
             = Some ''400 ttl must be positive''"
    by (simp add: example_env_def rejects_nonpositive_ttl_def create_call_def)
  from ttl_passed_through[OF up init, of None "- 1"] rej show ?thesis by simp
qed

text \<open>
  Claim C5 (empty input), as the claim states it, fails: \<open>create_context_cache\<close> has no
  check for an empty list. Called with \<open>[]\<close> against a store that refuses the client, it
  reports the store's refusal, an error that says nothing of the empty list. Against
  services that accept every call, it constructs the storage client and initialises Vertex
  AI first, and the error it then reports is the index error of \<open>files[0]\<close>.
\<close>

theorem empty_files_counterexample:
  "fst (create_context_cache (example_env [] denies_storage) (Some []) example_settings None
          DEFAULT_CACHE_TTL empty_world)
     = Inl (ContextCacheError ''Cache creation failed: GCS upload failed: 403 denied'')
   \<and> fst (create_context_cache (example_env [] no_faults) (Some []) example_settings None
          DEFAULT_CACHE_TTL empty_world)
     = Inl (ContextCacheError ''Cache creation failed: list index out of range'')
   \<and> calls (snd (create_context_cache (example_env [] no_faults) (Some []) example_settings
          None DEFAULT_CACHE_TTL empty_world))
     = [StorageClient ''edu-teacher-assistant-prod'',
        VertexaiInit ''edu-teacher-assistant-prod'' ''us-central1'']"
  by (simp add: create_context_cache_def upload_files_to_gcs_def reraise_def lib_def
      example_env_def no_faults_def denies_storage_def example_settings_def empty_world_def)

text \<open>
  Claim C5 (empty input), amended. \<open>create_context_cache\<close> has no check of its own for a
  missing or empty \<open>files\<close>. Called with \<open>None\<close> it fails at \<open>len(files)\<close> before any library call,
  with the type error behind \<open>Cache creation failed:\<close>. Called with an empty list it constructs
  the storage client and initialises Vertex AI; if one of the two raises, that failure is
  what it reports; otherwise it fails at \<open>files[0]\<close> with
  \<open>Cache creation failed: list index out of range\<close>. In every case the result is an error,
  the service is not asked to create a cache, and nothing but the trace of calls changes.
\<close>

theorem empty_files_fail_at_index:
  "create_context_cache E None S instr ttl w
     = (Inl (ContextCacheError
               (''Cache creation failed: object of type '' @ [CHR 0x27] @ ''NoneType''
                @ [CHR 0x27] @ '' has no len()'')), w)
   \<and> create_context_cache E (Some []) S instr ttl w
     = (case raises E (StorageClient (google_cloud_project S)) of
          Some m \<Rightarrow>
            (Inl (ContextCacheError (''Cache creation failed: GCS upload failed: '' @ m)),
             w\<lparr>calls := calls w @ [StorageClient (google_cloud_project S)]\<rparr>)
        | None \<Rightarrow>
            (case raises E (VertexaiInit (google_cloud_project S) (google_cloud_region S)) of
               Some m \<Rightarrow>
                 (Inl (ContextCacheError (''Cache creation failed: '' @ m)),
                  w\<lparr>calls := calls w @ [StorageClient (google_cloud_project S),
                                           VertexaiInit (google_cloud_project S)
                                             (google_cloud_region S)]\<rparr>)
             | None \<Rightarrow>
                 (Inl (ContextCacheError ''Cache creation failed: list index out of range''),
                  w\<lparr>calls := calls w @ [StorageClient (google_cloud_project S),
                                           VertexaiInit (google_cloud_project S)
                                             (google_cloud_region S)]\<rparr>)))"
proof (intro conjI)
  show "create_context_cache E None S instr ttl w
     = (Inl (ContextCacheError
               (''Cache creation failed: object of type '' @ [CHR 0x27] @ ''NoneType''
                @ [CHR 0x27] @ '' has no len()'')), w)"
    by (simp add: create_context_cache_def reraise_def quoted_def)
  have u: "upload_files_to_gcs E [] S default_bucket w =
     (case raises E (StorageClient (google_cloud_project S)) of
        Some m \<Rightarrow> (Inl (ContextCacheError (''GCS upload failed: '' @ m)),
                   w\<lparr>calls := calls w @ [StorageClient (google_cloud_project S)]\<rparr>)
      | None \<Rightarrow> (Inr [], w\<lparr>calls := calls w @ [StorageClient (google_cloud_project S)]\<rparr>))"
    by (simp add: upload_files_to_gcs_def reraise_def lib_def split: option.split)
  show "create_context_cache E (Some []) S instr ttl w
     = (case raises E (StorageClient (google_cloud_project S)) of
          Some m \<Rightarrow>
            (Inl (ContextCacheError (''Cache creation failed: GCS upload failed: '' @ m)),
             w\<lparr>calls := calls w @ [StorageClient (google_cloud_project S)]\<rparr>)
        | None \<Rightarrow>
            (case raises E (VertexaiInit (google_cloud_project S) (google_cloud_region S)) of
               Some m \<Rightarrow>
                 (Inl (ContextCacheError (''Cache creation failed: '' @ m)),
                  w\<lparr>calls := calls w @ [StorageClient (google_cloud_project S),
                                           VertexaiInit (google_cloud_project S)
                                             (google_cloud_region S)]\<rparr>)
             | None \<Rightarrow>
                 (Inl (ContextCacheError ''Cache creation failed: list index out of range''),
                  w\<lparr>calls := calls w @ [StorageClient (google_cloud_project S),
                                           VertexaiInit (google_cloud_project S)
                                             (google_cloud_region S)]\<rparr>)))"
    by (simp add: create_context_cache_def reraise_def u lib_def split: option.split)
qed

theorem empty_files_fail_at_index_witness:
  "create_context_cache (example_env [] no_faults) (Some []) example_settings None
     DEFAULT_CACHE_TTL empty_world
   = (Inl (ContextCacheError ''Cache creation failed: list index out of range''),
      empty_world\<lparr>calls := calls empty_world
         @ [StorageClient (google_cloud_project example_settings),
            VertexaiInit (google_cloud_project example_settings)
              (google_cloud_region example_settings)]\<rparr>)
   \<and> fst (create_context_cache (example_env [] no_faults) None example_settings None
            DEFAULT_CACHE_TTL empty_world)
     = Inl (ContextCacheError
              (''Cache creation failed: object of type '' @ [CHR 0x27] @ ''NoneType''
               @ [CHR 0x27] @ '' has no len()''))"
proof -
  let ?E = "example_env [] no_faults"
  have r1: "raises ?E (StorageClient (google_cloud_project example_settings)) = None"
    and r2: "raises ?E (VertexaiInit (google_cloud_project example_settings)
                          (google_cloud_region example_settings)) = None"
    by (simp_all add: example_env_def no_faults_def)
  from empty_files_fail_at_index[of ?E example_settings None DEFAULT_CACHE_TTL empty_world]
  show ?thesis by (simp add: r1 r2)
qed

text \<open>
  Claim C10 (every staged file is labelled application/pdf). Whenever
  \<open>create_context_cache\<close> succeeds, the creation call it made, the last call of the trace,
  and the cache the service holds under the returned name carry one content reference per
  input file, in order, each the file's URI with the MIME type \<open>application/pdf\<close>, whatever
  the file's extension. The witness stages a \<open>.pptx\<close> file, for which \<open>_get_mime_type\<close> of
  the datastore module gives another type.
\<close>

theorem cache_contents_mime_pdf:
  assumes "create_context_cache E (Some files) S instr ttl w = (Inr name, w')"
  shows "files \<noteq> []
         \<and> last (calls w')
           = create_call S instr (map (gcs_uri_of E default_bucket) files) ttl (hd files)
         \<and> (\<exists>c. c \<in> set (caches w') \<and> cc_name c = name
                \<and> cc_contents c
                  = map (\<lambda>p. (gcs_uri_of E default_bucket p, ''application/pdf'')) files)"
proof -
  from create_Inr_cases[OF assms] obtain f0 fs uris w1 where f: "files = f0 # fs"
    and up: "upload_files_to_gcs E files S default_bucket w = (Inr uris, w1)"
    and i: "raises E (init_call S) = None"
    and c: "raises E (create_call S instr uris ttl f0) = None"
    by blast
  from upload_loop_uris[OF upload_files_to_gcs_Inr[OF up]]
  have uris: "uris = map (gcs_uri_of E default_bucket) files" by simp
  from up f have up': "upload_files_to_gcs E (f0 # fs) S default_bucket w = (Inr uris, w1)"
    by simp
  let ?c = "\<lparr>cc_name = ''cachedContents/'' @ str_nat (issued w1),
                  cc_model_name = specialist_model S,
                  cc_system_instruction =
                    (case instr of
                       None \<Rightarrow> default_instruction
                     | Some s \<Rightarrow> if s = [] then default_instruction else s),
                  cc_contents = map (\<lambda>uri. (uri, ''application/pdf'')) uris,
                  cc_ttl = ttl,
                  cc_display_name = ''lesson-materials-'' @ Path_stem f0\<rparr>"
  from assms f have a: "create_context_cache E (Some (f0 # fs)) S instr ttl w = (Inr name, w')"
    by simp
  have n: "name = ''cachedContents/'' @ str_nat (issued w1)"
    and w': "w' = w1\<lparr>calls := calls w1 @ [init_call S, create_call S instr uris ttl f0],
              caches := caches w1 @ [?c], issued := Suc (issued w1)\<rparr>"
    using a[unfolded create_after_upload[OF up' i]] by (auto simp: c)
  have 1: "last (calls w') = create_call S instr uris ttl f0" by (simp add: w')
  have 2: "?c \<in> set (caches w')" by (simp add: w')
  have 3: "cc_contents ?c = map (\<lambda>p. (gcs_uri_of E default_bucket p, ''application/pdf'')) files"
    by (simp add: uris)
  have 4: "cc_name ?c = name" by (simp add: n)
  from 2 3 4 have "\<exists>c. c \<in> set (caches w') \<and> cc_name c = name
                \<and> cc_contents c
                  = map (\<lambda>p. (gcs_uri_of E default_bucket p, ''application/pdf'')) files"
    by blast
  with 1 f uris show ?thesis by simp
qed

theorem cache_contents_mime_pdf_witness:
  "(\<exists>c. c \<in> set (caches (snd (create_context_cache
                (example_env [(''deck.pptx'', ''AAAA'')] no_faults)
                (Some [''deck.pptx'']) example_settings None DEFAULT_CACHE_TTL empty_world)))
       \<and> cc_name c = ''cachedContents/0''
       \<and> cc_contents c
           = [(''gs://teacher-assistant-uploads/lesson-materials/AAAA/deck.pptx'',
               ''application/pdf'')])
   \<and> get_mime_type ''deck.pptx''
       = ''application/vnd.openxmlformats-officedocument.presentationml.presentation''"
proof -
  let ?E = "example_env [(''deck.pptx'', ''AAAA'')] no_faults"
  let ?u = "''gs://teacher-assistant-uploads/lesson-materials/AAAA/deck.pptx''"
  let ?r = "upload_files_to_gcs ?E [''deck.pptx''] example_settings default_bucket empty_world"
  let ?c = "create_context_cache ?E (Some [''deck.pptx'']) example_settings None
              DEFAULT_CACHE_TTL empty_world"
  have f: "fst ?r = Inr [?u]" by (simp add: cache_eval)
  have up: "?r = (Inr [?u], snd ?r)" using f by (simp add: prod_eq_iff)
  have i: "issued (snd ?r) = 0" by (simp add: cache_eval)
  have init: "raises ?E (init_call example_settings) = None"
    and acc: "raises ?E (create_call example_settings None [?u] DEFAULT_CACHE_TTL ''deck.pptx'')
              = None"
    by (simp_all add: example_env_def no_faults_def)
  have "fst ?c = Inr ''cachedContents/0''"
    by (simp add: create_after_upload[OF up init] acc i digit_def)
  then have s: "?c = (Inr ''cachedContents/0'', snd ?c)" by (simp add: prod_eq_iff)
  have g: "gcs_uri_of ?E default_bucket ''deck.pptx'' = ?u"
    by (simp add: gcs_uri_of_def blob_name_of_def example_env_def default_bucket_def
        Path_name_def)
  have m: "get_mime_type ''deck.pptx''
       = ''application/vnd.openxmlformats-officedocument.presentationml.presentation''"
    by (simp add: get_mime_type_def path_eval)
  from cache_contents_mime_pdf[OF s] g m show ?thesis by simp
qed

lemma find_name_None: "find (\<lambda>c. cc_name c = n) cs = None \<longleftrightarrow> n \<notin> cc_name ` set cs"
  by (auto simp: find_None_iff)

lemma delete_cache_dead:
  assumes "n \<notin> cc_name ` set (caches w)"
  shows "delete_cache E n S w =
     (case raises E (init_call S) of
        Some m \<Rightarrow> (Inl (ContextCacheError (''Cache deletion failed: '' @ m)),
                   w\<lparr>calls := calls w @ [init_call S]\<rparr>)
      | None \<Rightarrow>
          (case raises E (CachedContentGet n) of
             Some m \<Rightarrow> (Inl (ContextCacheError (''Cache deletion failed: '' @ m)),
                        w\<lparr>calls := calls w @ [init_call S, CachedContentGet n]\<rparr>)
           | None \<Rightarrow>
               (Inl (ContextCacheError
                       (''Cache deletion failed: 404 Not found: cached content '' @ n)),
                w\<lparr>calls := calls w @ [init_call S, CachedContentGet n]\<rparr>)))"
proof -
  from assms have "find (\<lambda>c. cc_name c = n) (caches w) = None" by (simp add: find_name_None)
  then show ?thesis
    by (simp add: delete_cache_def reraise_def lib_def CachedContent_get_def init_call_def
        split: option.split)
qed

lemma delete_cache_live:
  assumes nf: "\<forall>c. raises E c = None" and live: "n \<in> cc_name ` set (caches w)"
  shows "delete_cache E n S w =
     (Inr (), w\<lparr>calls := calls w @ [init_call S, CachedContentGet n, CachedContentDelete n],
               caches := filter (\<lambda>d. cc_name d \<noteq> n) (caches w)\<rparr>)"
proof -
  from live have "find (\<lambda>c. cc_name c = n) (caches w) \<noteq> None" by (simp add: find_name_None)
  then obtain c where f: "find (\<lambda>c. cc_name c = n) (caches w) = Some c" by blast
  then have c: "cc_name c = n" by (auto simp: find_Some_iff)
  from nf f c show ?thesis
    by (simp add: delete_cache_def reraise_def lib_def CachedContent_get_def
        CachedContent_delete_def init_call_def)
qed

text \<open>
  Claim C6 (delete idempotence), as the claim states it, fails: \<open>delete_cache\<close> looks the
  handle up before deleting it and turns every exception into its own error. The first
  delete of a live cache succeeds; the second delete of the same handle finds no cache and
  fails.
\<close>

theorem delete_twice_counterexample:
  "fst (delete_cache (example_env [] no_faults) ''cachedContents/0'' example_settings live_world)
     = Inr ()
   \<and> fst (delete_cache (example_env [] no_faults) ''cachedContents/0'' example_settings
            (snd (delete_cache (example_env [] no_faults) ''cachedContents/0'' example_settings
                    live_world)))
     = Inl (ContextCacheError
              ''Cache deletion failed: 404 Not found: cached content cachedContents/0'')"
  by (simp add: delete_cache_def reraise_def lib_def CachedContent_get_def
      CachedContent_delete_def example_env_def no_faults_def live_world_def empty_world_def)

text \<open>
  Claim C6 (delete idempotence), amended. \<open>delete_cache\<close> on a handle the service does not
  hold (never created, expired, or already deleted) fails with the module's error and
  changes no cache. On a live handle, when no library call fails, it succeeds and removes
  the cache, and a second delete of the same handle fails with the not-found message of
  the lookup behind \<open>Cache deletion failed:\<close>.
\<close>

theorem delete_fails_on_missing_handle:
  "(n \<notin> cc_name ` set (caches w) \<longrightarrow>
      (\<exists>m. fst (delete_cache E n S w) = Inl (ContextCacheError m))
      \<and> caches (snd (delete_cache E n S w)) = caches w)
   \<and> ((\<forall>c. raises E c = None) \<and> n \<in> cc_name ` set (caches w) \<longrightarrow>
        fst (delete_cache E n S w) = Inr ()
        \<and> n \<notin> cc_name ` set (caches (snd (delete_cache E n S w)))
        \<and> fst (delete_cache E n S (snd (delete_cache E n S w)))
            = Inl (ContextCacheError
                     (''Cache deletion failed: 404 Not found: cached content '' @ n)))"
proof (intro conjI impI)
  assume d: "n \<notin> cc_name ` set (caches w)"
  show "\<exists>m. fst (delete_cache E n S w) = Inl (ContextCacheError m)"
    by (simp add: delete_cache_dead[OF d] split: option.split)
  show "caches (snd (delete_cache E n S w)) = caches w"
    by (simp add: delete_cache_dead[OF d] split: option.split)
next
  assume a: "(\<forall>c. raises E c = None) \<and> n \<in> cc_name ` set (caches w)"
  then have nf: "\<forall>c. raises E c = None" and live: "n \<in> cc_name ` set (caches w)" by blast+
  note l = delete_cache_live[OF nf live, of S]
  show "fst (delete_cache E n S w) = Inr ()" by (simp add: l)
  show gone: "n \<notin> cc_name ` set (caches (snd (delete_cache E n S w)))"
    by (auto simp: l)
  from nf show "fst (delete_cache E n S (snd (delete_cache E n S w)))
            = Inl (ContextCacheError
                     (''Cache deletion failed: 404 Not found: cached content '' @ n))"
    by (simp add: delete_cache_dead[OF gone])
qed

theorem delete_fails_on_missing_handle_witness:
  "fst (delete_cache (example_env [] no_faults) ''cachedContents/0'' example_settings live_world)
     = Inr ()
   \<and> ''cachedContents/0''
       \<notin> cc_name ` set (caches (snd (delete_cache (example_env [] no_faults)
                                        ''cachedContents/0'' example_settings live_world)))
   \<and> (\<exists>m. fst (delete_cache (example_env [] no_faults) ''cachedContents/7'' example_settings
                  live_world) = Inl (ContextCacheError m))"
proof -
  let ?E = "example_env [] no_faults"
  have nf: "\<forall>c. raises ?E c = None" by (simp add: example_env_def no_faults_def)
  have live: "''cachedContents/0'' \<in> cc_name ` set (caches live_world)"
    by (simp add: live_world_def empty_world_def)
  have dead: "''cachedContents/7'' \<notin> cc_name ` set (caches live_world)"
    by (simp add: live_world_def empty_world_def)
  from delete_fails_on_missing_handle[of "''cachedContents/0''" live_world ?E example_settings]
    nf live
  have 1: "fst (delete_cache ?E ''cachedContents/0'' example_settings live_world) = Inr ()
     \<and> ''cachedContents/0''
       \<notin> cc_name ` set (caches (snd (delete_cache ?E ''cachedContents/0'' example_settings
                                        live_world)))"
    by blast
  from delete_fails_on_missing_handle[of "''cachedContents/7''" live_world ?E example_settings]
    dead
  have 2: "\<exists>m. fst (delete_cache ?E ''cachedContents/7'' example_settings live_world)
               = Inl (ContextCacheError m)"
    by blast
  from 1 2 show ?thesis by blast
qed

section \<open>Uploads made by repeated staging\<close>

lemma upload_loop_single_puts:
  assumes "upload_loop E b [p] acc w = (Inr us, w')"
  shows "count_list (puts (calls w')) k
           = count_list (puts (calls w)) k
             + (if blobs w k = None \<and> k = (b, blob_name_of E p) then 1 else 0)
         \<and> (blobs w' k \<noteq> None \<longleftrightarrow> blobs w k \<noteq> None \<or> k = (b, blob_name_of E p))"
proof (cases "local_files E p = None \<or> lower (Path_suffix p) \<notin> set SUPPORTED_EXTENSIONS")
  case True
  from upload_loop_single_fail[OF True, of b acc w] assms show ?thesis by auto
next
  case False
  then obtain c where c: "local_files E p = Some c"
    and s: "lower (Path_suffix p) \<in> set SUPPORTED_EXTENSIONS" by auto
  from assms show ?thesis
    unfolding upload_loop_single[OF c s]
    by (auto split: option.splits if_splits)
qed

lemma upload_loop_success_puts:
  "upload_loop E b fs acc w = (Inr us, w') \<Longrightarrow>
     count_list (puts (calls w')) k
       = count_list (puts (calls w)) k
         + (if blobs w k = None \<and> k \<in> (\<lambda>p. (b, blob_name_of E p)) ` set fs then 1 else 0)
     \<and> (blobs w' k \<noteq> None \<longleftrightarrow>
          blobs w k \<noteq> None \<or> k \<in> (\<lambda>p. (b, blob_name_of E p)) ` set fs)"
proof (induction fs arbitrary: acc w)
  case Nil
  then show ?case by simp
next
  case (Cons p fs)
  obtain r1 w1 where s: "upload_loop E b [p] acc w = (r1, w1)"
    by (cases "upload_loop E b [p] acc w")
  note step = upload_loop_Cons_cases[OF s, of fs]
  from Cons.prems step obtain us1 where r1: "r1 = Inr us1"
    and rest: "upload_loop E b fs us1 w1 = (Inr us, w')"
    by (cases r1) (simp_all del: upload_loop.simps)
  from s r1 have "upload_loop E b [p] acc w = (Inr us1, w1)" by simp
  note one = upload_loop_single_puts[OF this, of k]
  note ih = Cons.IH[OF rest]
  from one ih show ?case by (auto split: if_splits)
qed

lemma upload_files_to_gcs_puts:
  assumes "upload_files_to_gcs E fs S b w = (Inr us, w')"
  shows "count_list (puts (calls w')) k
       = count_list (puts (calls w)) k
         + (if blobs w k = None \<and> k \<in> (\<lambda>p. (b, blob_name_of E p)) ` set fs then 1 else 0)
     \<and> (blobs w' k \<noteq> None \<longleftrightarrow>
          blobs w k \<noteq> None \<or> k \<in> (\<lambda>p. (b, blob_name_of E p)) ` set fs)"
  using upload_loop_success_puts[OF upload_files_to_gcs_Inr[OF assms], of k] by simp

text \<open>
  Claim C1 (dedup idempotence), as the claim states it, fails for a different filename:
  the blob name is composed of the digest and of the file's name, so the same content
  staged as \<open>a.pdf\<close> and then as \<open>b.pdf\<close> is uploaded twice and gets two different URIs.
\<close>

theorem dedup_different_filename_counterexample:
  "fst (upload_files_to_gcs (example_env [(''a.pdf'', ''AAAA''), (''b.pdf'', ''AAAA'')] no_faults)
          [''a.pdf''] example_settings default_bucket empty_world)
     = Inr [''gs://teacher-assistant-uploads/lesson-materials/AAAA/a.pdf'']
   \<and> fst (upload_files_to_gcs (example_env [(''a.pdf'', ''AAAA''), (''b.pdf'', ''AAAA'')] no_faults)
          [''b.pdf''] example_settings default_bucket
          (snd (upload_files_to_gcs
                  (example_env [(''a.pdf'', ''AAAA''), (''b.pdf'', ''AAAA'')] no_faults)
                  [''a.pdf''] example_settings default_bucket empty_world)))
     = Inr [''gs://teacher-assistant-uploads/lesson-materials/AAAA/b.pdf'']
   \<and> puts (calls (snd (upload_files_to_gcs
          (example_env [(''a.pdf'', ''AAAA''), (''b.pdf'', ''AAAA'')] no_faults)
          [''b.pdf''] example_settings default_bucket
          (snd (upload_files_to_gcs
                  (example_env [(''a.pdf'', ''AAAA''), (''b.pdf'', ''AAAA'')] no_faults)
                  [''a.pdf''] example_settings default_bucket empty_world)))))
     = [(''teacher-assistant-uploads'', ''lesson-materials/AAAA/a.pdf''),
        (''teacher-assistant-uploads'', ''lesson-materials/AAAA/b.pdf'')]"
  by (simp add: upload_files_to_gcs_def reraise_def lib_def blob_exists_def
      blob_upload_from_filename_def compute_file_hash_def Path_name_def Path_suffix_def
      has_suffix_def after_last_dot_def lower_def lower_char_def SUPPORTED_EXTENSIONS_def
      example_env_def no_faults_def empty_world_def default_bucket_def Let_def)

text \<open>
  Claim C1 (dedup idempotence), amended. Let the same content be staged twice, by two calls
  that both succeed, and let the trace before hold no upload of the first blob. Under the
  same filename (the final component of the path; the directories may differ) both stagings
  return the same URI, the blob has been uploaded at most once, and the second staging
  uploads nothing for it. Under different filenames the two URIs differ, and the second
  staging uploads the blob of the second name exactly once if no blob is stored under that
  name yet, and not at all if one is.
\<close>

theorem dedup_same_filename:
  assumes c1: "local_files E p1 = Some c" and c2: "local_files E p2 = Some c"
    and fresh: "(b, blob_name_of E p1) \<notin> set (puts (calls w))"
    and s1: "upload_files_to_gcs E fs1 S b w = (Inr us1, w1)"
    and s2: "upload_files_to_gcs E fs2 S b w1 = (Inr us2, w2)"
    and i: "i < length fs1" "fs1 ! i = p1"
    and j: "j < length fs2" "fs2 ! j = p2"
  shows "(Path_name p1 = Path_name p2 \<longrightarrow>
            us1 ! i = us2 ! j
            \<and> count_list (puts (calls w2)) (b, blob_name_of E p1) \<le> 1
            \<and> count_list (puts (calls w2)) (b, blob_name_of E p1)
                = count_list (puts (calls w1)) (b, blob_name_of E p1))
         \<and> (Path_name p1 \<noteq> Path_name p2 \<longrightarrow>
              us1 ! i \<noteq> us2 ! j
              \<and> count_list (puts (calls w2)) (b, blob_name_of E p2)
                  = count_list (puts (calls w1)) (b, blob_name_of E p2)
                    + (if blobs w1 (b, blob_name_of E p2) = None then 1 else 0))"
proof -
  let ?k1 = "(b, blob_name_of E p1)"
  let ?k2 = "(b, blob_name_of E p2)"
  from upload_loop_uris[OF upload_files_to_gcs_Inr[OF s1]] i
  have u1: "us1 ! i = gcs_uri_of E b p1" by simp
  from upload_loop_uris[OF upload_files_to_gcs_Inr[OF s2]] j
  have u2: "us2 ! j = gcs_uri_of E b p2" by simp
  from i have m1: "?k1 \<in> (\<lambda>p. (b, blob_name_of E p)) ` set fs1" by auto
  from j have m2: "?k2 \<in> (\<lambda>p. (b, blob_name_of E p)) ` set fs2" by auto
  from fresh have z: "count_list (puts (calls w)) ?k1 = 0" by (simp add: count_list_0_iff)
  from upload_files_to_gcs_puts[OF s1, of ?k1] m1 z
  have a1: "count_list (puts (calls w1)) ?k1 \<le> 1" and p1: "blobs w1 ?k1 \<noteq> None"
    by (auto split: if_splits)
  from upload_files_to_gcs_puts[OF s2, of ?k1] p1
  have a2: "count_list (puts (calls w2)) ?k1 = count_list (puts (calls w1)) ?k1" by simp
  from upload_files_to_gcs_puts[OF s2, of ?k2] m2
  have a3: "count_list (puts (calls w2)) ?k2
              = count_list (puts (calls w1)) ?k2 + (if blobs w1 ?k2 = None then 1 else 0)"
    by simp
  from u1 u2 gcs_uri_of_eq[OF c1 c2, of b] a1 a2 a3 show ?thesis by simp
qed

theorem dedup_same_filename_witness:
  "fst (upload_files_to_gcs
          (example_env [(''a/slides.pdf'', ''AAAA''), (''b/slides.pdf'', ''AAAA'')] no_faults)
          [''a/slides.pdf''] example_settings default_bucket empty_world)
     = Inr [''gs://teacher-assistant-uploads/lesson-materials/AAAA/slides.pdf'']
   \<and> fst (upload_files_to_gcs
          (example_env [(''a/slides.pdf'', ''AAAA''), (''b/slides.pdf'', ''AAAA'')] no_faults)
          [''b/slides.pdf''] example_settings default_bucket
          (snd (upload_files_to_gcs
                  (example_env [(''a/slides.pdf'', ''AAAA''), (''b/slides.pdf'', ''AAAA'')] no_faults)
                  [''a/slides.pdf''] example_settings default_bucket empty_world)))
     = Inr [''gs://teacher-assistant-uploads/lesson-materials/AAAA/slides.pdf'']
   \<and> count_list (puts (calls (snd (upload_files_to_gcs
          (example_env [(''a/slides.pdf'', ''AAAA''), (''b/slides.pdf'', ''AAAA'')] no_faults)
          [''b/slides.pdf''] example_settings default_bucket
          (snd (upload_files_to_gcs
                  (example_env [(''a/slides.pdf'', ''AAAA''), (''b/slides.pdf'', ''AAAA'')] no_faults)
                  [''a/slides.pdf''] example_settings default_bucket empty_world))))))
        (default_bucket,
         blob_name_of
           (example_env [(''a/slides.pdf'', ''AAAA''), (''b/slides.pdf'', ''AAAA'')] no_faults)
           ''a/slides.pdf'') \<le> 1"
proof -
  let ?E = "example_env [(''a/slides.pdf'', ''AAAA''), (''b/slides.pdf'', ''AAAA'')] no_faults"
  let ?u = "''gs://teacher-assistant-uploads/lesson-materials/AAAA/slides.pdf''"
  let ?r1 = "upload_files_to_gcs ?E [''a/slides.pdf''] example_settings default_bucket empty_world"
  let ?r2 = "upload_files_to_gcs ?E [''b/slides.pdf''] example_settings default_bucket (snd ?r1)"
  have f1: "fst ?r1 = Inr [?u]" by (simp add: staging_eval)
  have f2: "fst ?r2 = Inr [?u]" by (simp add: staging_eval)
  have s1: "?r1 = (Inr [?u], snd ?r1)" using f1 by (simp add: prod_eq_iff)
  have s2: "?r2 = (Inr [?u], snd ?r2)" using f2 by (simp add: prod_eq_iff)
  have c1: "local_files ?E ''a/slides.pdf'' = Some ''AAAA''" by (simp add: example_env_def)
  have c2: "local_files ?E ''b/slides.pdf'' = Some ''AAAA''" by (simp add: example_env_def)
  have fresh: "(default_bucket, blob_name_of ?E ''a/slides.pdf'') \<notin> set (puts (calls empty_world))"
    by (simp add: empty_world_def)
  have nm: "Path_name ''a/slides.pdf'' = Path_name ''b/slides.pdf''" by (simp add: Path_name_def)
  from dedup_same_filename[OF c1 c2 fresh s1 s2, of 0 0] nm
  have "count_list (puts (calls (snd ?r2))) (default_bucket, blob_name_of ?E ''a/slides.pdf'') \<le> 1"
    by simp
  with f1 f2 show ?thesis by blast
qed

end
